theory Spec2Isabelle
  imports Complex_Main "HOL-Library.AList"
begin

section \<open>Python values and exceptions\<close>

text \<open>
  Numbers: Python's \<open>int\<close> and \<open>float\<close> metric values are both read as real numbers
  (no rounding), so "within floating tolerance" is equality here. Round identifiers and
  process identifiers are integers.

  Every exception the modelled code can raise is a value of \<open>error\<close>. A \<open>TypeError\<close>
  raised by a \<open>raise\<close> statement of the source carries the source's message; the
  \<open>TypeError\<close> that the generated \<open>__init__\<close> of a dataclass raises for a call with
  a required parameter missing (or with a keyword it does not know) names the class and the
  parameters.
\<close>

datatype error =
    TypeError string
  | TypeError_missing string "string list"
  | TypeError_unexpected string string
  | ValueError string
  | KeyError string
  | NoSuchProcess int
  | AttributeError string
  | EOFError
  | AssertionError string

datatype pyval = PyNone | PyInt int | PyFloat real

fun as_float :: "pyval \<Rightarrow> real" where
  "as_float (PyFloat r) = r"
| "as_float (PyInt i) = of_int i"
| "as_float PyNone = 0"

fun as_int :: "pyval \<Rightarrow> int" where
  "as_int (PyInt i) = i"
| "as_int (PyFloat r) = \<lfloor>r\<rfloor>"
| "as_int PyNone = 0"

fun as_opt_int :: "pyval \<Rightarrow> int option" where
  "as_opt_int PyNone = None"
| "as_opt_int (PyInt i) = Some i"
| "as_opt_int (PyFloat r) = Some \<lfloor>r\<rfloor>"

section \<open>worker/metrics.py: the metric records\<close>

text \<open>
  The four concrete dataclasses. \<open>CPUMetric\<close>, \<open>MemoryMetric\<close> and \<open>DiskMetric\<close> derive
  from \<open>ProcessMetric\<close> (fields \<open>pid\<close>, \<open>parent_pid\<close>), which derives from \<open>MetricBase\<close>
  (fields \<open>timestamp\<close>, \<open>collection_id\<close>); \<open>NetworkMetric\<close> derives from \<open>MetricBase\<close>
  directly. The constructor arguments are in the order of the generated \<open>__init__\<close>:
  base class fields first. No field has a default value.
\<close>

datatype kind = CPU | Memory | Disk | Network

datatype metric =
    CPUMetric (timestamp: real) (collection_id: int) (pid: "int option") (parent_pid: "int option")
      (cpu_usage: real) (user_time: real) (system_time: real)
      (children_user_time: real) (children_system_time: real) (iowait_time: real)
  | MemoryMetric (timestamp: real) (collection_id: int) (pid: "int option") (parent_pid: "int option")
      (memory_usage: real)
  | DiskMetric (timestamp: real) (collection_id: int) (pid: "int option") (parent_pid: "int option")
      (disk_read_mb: real) (disk_write_mb: real) (disk_read_rate: real) (disk_write_rate: real)
  | NetworkMetric (timestamp: real) (collection_id: int)
      (net_read_mb: real) (net_write_mb: real) (net_read_rate: real) (net_write_rate: real)

fun kind_of :: "metric \<Rightarrow> kind" where
  "kind_of (CPUMetric _ _ _ _ _ _ _ _ _ _) = CPU"
| "kind_of (MemoryMetric _ _ _ _ _) = Memory"
| "kind_of (DiskMetric _ _ _ _ _ _ _ _) = Disk"
| "kind_of (NetworkMetric _ _ _ _ _ _) = Network"

fun class_name :: "kind \<Rightarrow> string" where
  "class_name CPU = ''CPUMetric''"
| "class_name Memory = ''MemoryMetric''"
| "class_name Disk = ''DiskMetric''"
| "class_name Network = ''NetworkMetric''"

text \<open>The class attribute \<open>METRIC_TYPES_FIELDS\<close> of each concrete class.\<close>

fun METRIC_TYPES_FIELDS :: "kind \<Rightarrow> string list" where
  "METRIC_TYPES_FIELDS CPU =
     [''cpu_usage'', ''user_time'', ''system_time'',
      ''children_user_time'', ''children_system_time'', ''iowait_time'']"
| "METRIC_TYPES_FIELDS Memory = [''memory_usage'']"
| "METRIC_TYPES_FIELDS Disk =
     [''disk_read_mb'', ''disk_write_mb'', ''disk_read_rate'', ''disk_write_rate'']"
| "METRIC_TYPES_FIELDS Network =
     [''net_read_mb'', ''net_write_mb'', ''net_read_rate'', ''net_write_rate'']"

text \<open>
  \<open>getattr(metric, name, default)\<close> for the names the code looks up reflectively, the
  metric value fields: \<open>None\<close> when the record has no such attribute.
\<close>

fun getattr_field :: "metric \<Rightarrow> string \<Rightarrow> real option" where
  "getattr_field (CPUMetric ts cid p pp usage utime stime cutime cstime iowait) name =
     map_of [(''cpu_usage'', usage), (''user_time'', utime), (''system_time'', stime),
             (''children_user_time'', cutime), (''children_system_time'', cstime),
             (''iowait_time'', iowait)] name"
| "getattr_field (MemoryMetric ts cid p pp mu) name = map_of [(''memory_usage'', mu)] name"
| "getattr_field (DiskMetric ts cid p pp rm wm rr wr) name =
     map_of [(''disk_read_mb'', rm), (''disk_write_mb'', wm),
             (''disk_read_rate'', rr), (''disk_write_rate'', wr)] name"
| "getattr_field (NetworkMetric ts cid rm wm rr wr) name =
     map_of [(''net_read_mb'', rm), (''net_write_mb'', wm),
             (''net_read_rate'', rr), (''net_write_rate'', wr)] name"

definition getattr0 :: "metric \<Rightarrow> string \<Rightarrow> real" where
  "getattr0 m name = (case getattr_field m name of None \<Rightarrow> 0 | Some v \<Rightarrow> v)"

text \<open>
  The generated \<open>__init__\<close>, called with keyword arguments only (\<open>cls(**new_data)\<close>):
  every field of the class and of its bases is a required parameter.
\<close>

fun init_params :: "kind \<Rightarrow> string list" where
  "init_params Network = [''timestamp'', ''collection_id''] @ METRIC_TYPES_FIELDS Network"
| "init_params k = [''timestamp'', ''collection_id'', ''pid'', ''parent_pid''] @ METRIC_TYPES_FIELDS k"

definition kwarg :: "(string \<times> pyval) list \<Rightarrow> string \<Rightarrow> pyval" where
  "kwarg kw name = (case map_of kw name of None \<Rightarrow> PyNone | Some v \<Rightarrow> v)"

fun build :: "kind \<Rightarrow> (string \<times> pyval) list \<Rightarrow> metric" where
  "build CPU kw =
     CPUMetric (as_float (kwarg kw ''timestamp'')) (as_int (kwarg kw ''collection_id''))
       (as_opt_int (kwarg kw ''pid'')) (as_opt_int (kwarg kw ''parent_pid''))
       (as_float (kwarg kw ''cpu_usage'')) (as_float (kwarg kw ''user_time''))
       (as_float (kwarg kw ''system_time'')) (as_float (kwarg kw ''children_user_time''))
       (as_float (kwarg kw ''children_system_time'')) (as_float (kwarg kw ''iowait_time''))"
| "build Memory kw =
     MemoryMetric (as_float (kwarg kw ''timestamp'')) (as_int (kwarg kw ''collection_id''))
       (as_opt_int (kwarg kw ''pid'')) (as_opt_int (kwarg kw ''parent_pid''))
       (as_float (kwarg kw ''memory_usage''))"
| "build Disk kw =
     DiskMetric (as_float (kwarg kw ''timestamp'')) (as_int (kwarg kw ''collection_id''))
       (as_opt_int (kwarg kw ''pid'')) (as_opt_int (kwarg kw ''parent_pid''))
       (as_float (kwarg kw ''disk_read_mb'')) (as_float (kwarg kw ''disk_write_mb''))
       (as_float (kwarg kw ''disk_read_rate'')) (as_float (kwarg kw ''disk_write_rate''))"
| "build Network kw =
     NetworkMetric (as_float (kwarg kw ''timestamp'')) (as_int (kwarg kw ''collection_id''))
       (as_float (kwarg kw ''net_read_mb'')) (as_float (kwarg kw ''net_write_mb''))
       (as_float (kwarg kw ''net_read_rate'')) (as_float (kwarg kw ''net_write_rate''))"

definition dataclass_init :: "kind \<Rightarrow> (string \<times> pyval) list \<Rightarrow> error + metric" where
  "dataclass_init k kw =
     (case filter (\<lambda>n. n \<notin> set (init_params k)) (map fst kw) of
        n # _ \<Rightarrow> Inl (TypeError_unexpected (class_name k) n)
      | [] \<Rightarrow>
          (case filter (\<lambda>n. map_of kw n = None) (init_params k) of
             [] \<Rightarrow> Inr (build k kw)
           | missing \<Rightarrow> Inl (TypeError_missing (class_name k) missing)))"

text \<open>
  \<open>isinstance(other, type(self))\<close> for two metric records: none of the four concrete
  classes derives from another, so it holds exactly when the classes are the same.
\<close>

definition isinstance :: "metric \<Rightarrow> kind \<Rightarrow> bool" where
  "isinstance other k = (kind_of other = k)"

definition metric_lt :: "metric \<Rightarrow> metric \<Rightarrow> bool" where
  "metric_lt self other = (timestamp self < timestamp other)"

definition metric_add :: "metric \<Rightarrow> metric \<Rightarrow> error + metric" where
  "metric_add self other =
     (if \<not> isinstance other (kind_of self) then
        Inl (TypeError (''Cannot add different metric types: '' @ class_name (kind_of self)
                        @ '' and '' @ class_name (kind_of other)))
      else
        let new_data =
              [(''timestamp'', PyFloat (max (timestamp self) (timestamp other))),
               (''collection_id'', PyInt (collection_id self))]
              @ map (\<lambda>field_name. (field_name,
                       PyFloat (getattr0 self field_name + getattr0 other field_name)))
                    (METRIC_TYPES_FIELDS (kind_of self))
        in dataclass_init (kind_of self) new_data)"

definition metric_sub :: "metric \<Rightarrow> metric \<Rightarrow> error + metric" where
  "metric_sub self other =
     (if \<not> isinstance other (kind_of self) then
        Inl (TypeError (''Cannot subtract different metric types: '' @ class_name (kind_of self)
                        @ '' and '' @ class_name (kind_of other)))
      else
        let new_data =
              [(''timestamp'', PyFloat (max (timestamp self) (timestamp other))),
               (''collection_id'', PyInt (collection_id self))]
              @ map (\<lambda>field_name. (field_name,
                       PyFloat (getattr0 self field_name - getattr0 other field_name)))
                    (METRIC_TYPES_FIELDS (kind_of self))
        in dataclass_init (kind_of self) new_data)"

text \<open>\<open>__truediv__\<close> for a numeric scalar (an \<open>int\<close> or a \<open>float\<close>).\<close>

definition metric_truediv :: "metric \<Rightarrow> real \<Rightarrow> error + metric" where
  "metric_truediv self number =
     (if number = 0 then Inl (ValueError ''Cannot divide by zero.'')
      else
        let new_data =
              [(''timestamp'', PyFloat (timestamp self)),
               (''collection_id'', PyInt (collection_id self))]
              @ map (\<lambda>field_name. (field_name, PyFloat (getattr0 self field_name / number)))
                    (METRIC_TYPES_FIELDS (kind_of self))
        in dataclass_init (kind_of self) new_data)"


section \<open>The operating system, as psutil shows it\<close>

text \<open>
  What the code reads through \<open>psutil\<close> and \<open>time.time()\<close> is an input of the model.
  A \<open>process\<close> holds the readings of one live process; \<open>children\<close> is what
  \<open>children(recursive=True)\<close> returns, the pids of all its descendants. A pid that
  \<open>processes\<close> maps to \<open>None\<close> does not exist: every \<open>psutil\<close> call on it raises
  \<open>NoSuchProcess\<close>. The three \<open>cpu_times\<close> attributes read with a default are optional.

  The \<open>world\<close> is the sequence of what is there to observe: the state counts the calls of
  \<open>time.time()\<close> in \<open>ticks\<close>, and at tick \<open>t\<close> the clock shows \<open>clock t\<close>, the
  operating system is \<open>os_at t\<close>, the monitor's end of the control channel holds
  \<open>conn_at t\<close>, and \<open>random.uniform(0, 1)\<close> draws \<open>jitter t\<close>. So a process can
  vanish between two samples of one round.
\<close>

record process =
  ppid :: int
  children :: "int list"
  rss :: nat
  cpu_percent :: real
  cpu_times_user :: real
  cpu_times_system :: real
  cpu_times_children_user :: "real option"
  cpu_times_children_system :: "real option"
  cpu_times_iowait :: "real option"
  read_bytes :: nat
  write_bytes :: nat

record system =
  processes :: "int \<Rightarrow> process option"
  bytes_recv :: nat
  bytes_sent :: nat

datatype poll = NoData | Data string | PeerClosed

record world =
  clock :: "nat \<Rightarrow> real"
  os_at :: "nat \<Rightarrow> system"
  conn_at :: "nat \<Rightarrow> poll"
  jitter :: "nat \<Rightarrow> real"

section \<open>The state of the monitor process\<close>

text \<open>
  The four sequences are the \<open>metrics\<close> lists of the four collectors; the attributes
  \<open>cpu_metrics\<close>, ... of \<open>MetricCollector\<close> are the same list objects, and the code only
  ever appends to them. \<open>logged\<close> is what went to the module loggers, \<open>sent\<close> the calls
  of \<open>prometheus.send_metric\<close> in order, \<open>slept\<close> the arguments of \<open>time.sleep\<close>
  in order, \<open>conn_closed\<close> whether the monitor has closed its end of the control channel.
\<close>

datatype level = DEBUG | WARNING | ERROR

datatype export =
  Export (export_name: string) (export_value: real) (export_type: string)
         (export_labels: "(string \<times> string) list")

record state =
  cpu_metrics :: "metric list"
  memory_metrics :: "metric list"
  disk_metrics :: "metric list"
  network_metrics :: "metric list"
  logged :: "(level \<times> string) list"
  ticks :: nat
  sent :: "export list"
  slept :: "real list"
  conn_closed :: bool

text \<open>
  A call returns or raises, and the state it leaves behind is there in both cases.
\<close>

type_synonym 'a result = "(error + 'a) \<times> state"

definition time_time :: "world \<Rightarrow> state \<Rightarrow> real \<times> state" where
  "time_time w s = (clock w (ticks s), s\<lparr>ticks := Suc (ticks s)\<rparr>)"

definition now :: "world \<Rightarrow> state \<Rightarrow> system" where
  "now w s = os_at w (ticks s)"

definition logger :: "level \<Rightarrow> string \<Rightarrow> state \<Rightarrow> state" where
  "logger lvl msg s = s\<lparr>logged := logged s @ [(lvl, msg)]\<rparr>"

section \<open>worker/metrics\_collectors.py\<close>

text \<open>The decorator: \<open>NoSuchProcess\<close> becomes a warning and the result \<open>None\<close>.\<close>

definition handle_psutil_error :: "(state \<Rightarrow> metric result) \<Rightarrow> state \<Rightarrow> metric option result" where
  "handle_psutil_error func s =
     (case func s of
        (Inr m, s') \<Rightarrow> (Inr (Some m), s')
      | (Inl (NoSuchProcess _), s') \<Rightarrow> (Inr None, logger WARNING ''Process no longer exists.'' s')
      | (Inl e, s') \<Rightarrow> (Inl e, s'))"

definition calculate_rates :: "real \<Rightarrow> real \<Rightarrow> real \<Rightarrow> real" where
  "calculate_rates current_value previous_value time_diff =
     (if time_diff > 0 then (current_value - previous_value) / time_diff else 0)"

text \<open>\<open>BaseMetricCollector._find_previous_metric\<close>: the last record of the pid.\<close>

definition find_previous_metric :: "metric list \<Rightarrow> int \<Rightarrow> metric option" where
  "find_previous_metric metrics p = find (\<lambda>m. pid m = Some p) (rev metrics)"

text \<open>\<open>GlobalMetricCollector._find_previous_metric\<close>: the last record.\<close>

definition find_previous_global :: "metric list \<Rightarrow> metric option" where
  "find_previous_global metrics = (if metrics = [] then None else Some (last metrics))"

definition getattr_default :: "real option \<Rightarrow> real" where
  "getattr_default a = (case a of None \<Rightarrow> 0 | Some v \<Rightarrow> v)"

definition cpu_collect :: "world \<Rightarrow> int \<Rightarrow> int \<Rightarrow> real \<Rightarrow> int \<Rightarrow> state \<Rightarrow> metric result" where
  "cpu_collect w p pp ts cid s =
     (case processes (now w s) p of
        None \<Rightarrow> (Inl (NoSuchProcess p), s)
      | Some proc \<Rightarrow>
          let cpu_metric =
                CPUMetric ts cid (Some p) (Some pp) (cpu_percent proc)
                  (cpu_times_user proc) (cpu_times_system proc)
                  (getattr_default (cpu_times_children_user proc))
                  (getattr_default (cpu_times_children_system proc))
                  (getattr_default (cpu_times_iowait proc))
          in (Inr cpu_metric, s\<lparr>cpu_metrics := cpu_metrics s @ [cpu_metric]\<rparr>))"

definition memory_collect :: "world \<Rightarrow> int \<Rightarrow> int \<Rightarrow> real \<Rightarrow> int \<Rightarrow> state \<Rightarrow> metric result" where
  "memory_collect w p pp ts cid s =
     (case processes (now w s) p of
        None \<Rightarrow> (Inl (NoSuchProcess p), s)
      | Some proc \<Rightarrow>
          let usage = rss proc div 2 ^ 20;
              memory_metric = MemoryMetric ts cid (Some p) (Some pp) (real usage)
          in (Inr memory_metric, s\<lparr>memory_metrics := memory_metrics s @ [memory_metric]\<rparr>))"

definition disk_collect :: "world \<Rightarrow> int \<Rightarrow> int \<Rightarrow> real \<Rightarrow> int \<Rightarrow> state \<Rightarrow> metric result" where
  "disk_collect w p pp ts cid s =
     (case processes (now w s) p of
        None \<Rightarrow> (Inl (NoSuchProcess p), s)
      | Some proc \<Rightarrow>
          let read_mb = real (read_bytes proc) / 1024 ^ 2;
              write_mb = real (write_bytes proc) / 1024 ^ 2;
              (read_rate, write_rate) =
                (case find_previous_metric (disk_metrics s) p of
                   None \<Rightarrow> (0, 0)
                 | Some prev_metric \<Rightarrow>
                     let time_diff = ts - timestamp prev_metric
                     in (calculate_rates read_mb (disk_read_mb prev_metric) time_diff,
                         calculate_rates write_mb (disk_write_mb prev_metric) time_diff));
              disk_metric = DiskMetric ts cid (Some p) (Some pp) read_mb write_mb read_rate write_rate
          in (Inr disk_metric, s\<lparr>disk_metrics := disk_metrics s @ [disk_metric]\<rparr>))"

definition network_collect :: "world \<Rightarrow> real \<Rightarrow> int \<Rightarrow> state \<Rightarrow> metric result" where
  "network_collect w ts cid s =
     (let read_mb = real (bytes_recv (now w s)) / 1024 ^ 2;
          write_mb = real (bytes_sent (now w s)) / 1024 ^ 2;
          (read_rate, write_rate) =
            (case find_previous_global (network_metrics s) of
               None \<Rightarrow> (0, 0)
             | Some prev_metric \<Rightarrow>
                 let time_diff = ts - timestamp prev_metric
                 in (calculate_rates read_mb (net_read_mb prev_metric) time_diff,
                     calculate_rates write_mb (net_write_mb prev_metric) time_diff));
          network_metric = NetworkMetric ts cid read_mb write_mb read_rate write_rate
      in (Inr network_metric, s\<lparr>network_metrics := network_metrics s @ [network_metric]\<rparr>))"

text \<open>
  \<open>collect_metric\<close> of \<open>IMetricCollector\<close> and of \<open>GlobalMetricCollector\<close>: read the
  clock, then run the decorated \<open>_collect\<close> of the collector.
\<close>

definition collect_metric ::
  "(world \<Rightarrow> int \<Rightarrow> int \<Rightarrow> real \<Rightarrow> int \<Rightarrow> state \<Rightarrow> metric result) \<Rightarrow>
   world \<Rightarrow> int \<Rightarrow> int \<Rightarrow> int \<Rightarrow> state \<Rightarrow> metric option result" where
  "collect_metric collect w p pp cid s =
     (let (current_time, s1) = time_time w s
      in handle_psutil_error (collect w p pp current_time cid) s1)"

definition collect_metric_global :: "world \<Rightarrow> int \<Rightarrow> state \<Rightarrow> metric option result" where
  "collect_metric_global w cid s =
     (let (ts, s1) = time_time w s
      in handle_psutil_error (network_collect w ts cid) s1)"

subsection \<open>MetricCollector\<close>

definition get_process_list :: "world \<Rightarrow> int \<Rightarrow> state \<Rightarrow> error + int list" where
  "get_process_list w parent s =
     (case processes (now w s) parent of
        None \<Rightarrow> Inl (NoSuchProcess parent)
      | Some current_process \<Rightarrow> Inr (parent # children current_process))"

definition collect_metrics_for_process :: "world \<Rightarrow> int \<Rightarrow> int \<Rightarrow> int \<Rightarrow> state \<Rightarrow> unit result" where
  "collect_metrics_for_process w p pp index s =
     (case collect_metric memory_collect w p pp index s of
        (Inl e, s1) \<Rightarrow> (Inl e, s1)
      | (Inr _, s1) \<Rightarrow>
          (case collect_metric cpu_collect w p pp index s1 of
             (Inl e, s2) \<Rightarrow> (Inl e, s2)
           | (Inr _, s2) \<Rightarrow>
               (case collect_metric disk_collect w p pp index s2 of
                  (Inl e, s3) \<Rightarrow> (Inl e, s3)
                | (Inr _, s3) \<Rightarrow> (Inr (), s3))))"

text \<open>
  The loop of \<open>collect_all_metrics\<close> over the process list: \<open>proc.ppid()\<close> raises
  \<open>NoSuchProcess\<close> for a process that is gone, and nothing here catches it.
\<close>

fun collect_processes :: "world \<Rightarrow> int list \<Rightarrow> int \<Rightarrow> state \<Rightarrow> unit result" where
  "collect_processes w [] index s = (Inr (), s)"
| "collect_processes w (p # ps) index s =
     (case processes (now w s) p of
        None \<Rightarrow> (Inl (NoSuchProcess p), s)
      | Some proc \<Rightarrow>
          (case collect_metrics_for_process w p (ppid proc) index s of
             (Inl e, s') \<Rightarrow> (Inl e, s')
           | (Inr _, s') \<Rightarrow> collect_processes w ps index s'))"

definition collect_all_metrics :: "world \<Rightarrow> int \<Rightarrow> int \<Rightarrow> state \<Rightarrow> unit result" where
  "collect_all_metrics w parent index s =
     (case get_process_list w parent s of
        Inl e \<Rightarrow> (Inl e, s)
      | Inr process_list \<Rightarrow>
          (case collect_processes w process_list index s of
             (Inl e, s') \<Rightarrow> (Inl e, s')
           | (Inr _, s') \<Rightarrow>
               (case collect_metric_global w index s' of
                  (Inl e, s'') \<Rightarrow> (Inl e, s'')
                | (Inr _, s'') \<Rightarrow> (Inr (), s''))))"


section \<open>worker/profiler.py\<close>

text \<open>\<open>str\<close> of an integer and of an optional integer.\<close>

definition digit :: "nat \<Rightarrow> char" where
  "digit n = ''0123456789'' ! n"

fun str_nat :: "nat \<Rightarrow> string" where
  "str_nat n = (if n < 10 then [digit n] else str_nat (n div 10) @ [digit (n mod 10)])"

declare str_nat.simps [simp del]

definition str_int :: "int \<Rightarrow> string" where
  "str_int i = (if i < 0 then CHR ''-'' # str_nat (nat (- i)) else str_nat (nat i))"

definition str_opt_int :: "int option \<Rightarrow> string" where
  "str_opt_int v = (case v of None \<Rightarrow> ''None'' | Some i \<Rightarrow> str_int i)"

record job =
  job_id :: string
  executor_id :: string
  call_id :: string

definition METRIC_COLLECTIONS_FIELDS :: "(string \<times> string list) list" where
  "METRIC_COLLECTIONS_FIELDS =
     [(''cpu_metrics'', [''cpu_usage'', ''user_time'', ''system_time'',
                         ''children_user_time'', ''children_system_time'', ''iowait_time'']),
      (''memory_metrics'', [''memory_usage'']),
      (''disk_metrics'', [''disk_read_mb'', ''disk_write_mb'', ''disk_read_rate'', ''disk_write_rate'']),
      (''network_metrics'', [''net_read_mb'', ''net_write_mb'', ''net_read_rate'', ''net_write_rate''])]"

definition prepare_profiling_data :: "job \<Rightarrow> (string \<times> string) list" where
  "prepare_profiling_data j =
     [(''job_id'', job_id j), (''executor_id'', executor_id j), (''call_id'', call_id j)]"

text \<open>\<open>getattr(self.metrics, metric_type, [])\<close>.\<close>

definition getattr_metrics :: "state \<Rightarrow> string \<Rightarrow> metric list" where
  "getattr_metrics s metric_type =
     (if metric_type = ''cpu_metrics'' then cpu_metrics s
      else if metric_type = ''memory_metrics'' then memory_metrics s
      else if metric_type = ''disk_metrics'' then disk_metrics s
      else if metric_type = ''network_metrics'' then network_metrics s
      else [])"

text \<open>
  The exporter is a collaborator: \<open>prometheus c\<close> tells whether its \<open>send_metric\<close>
  raises on the call \<open>c\<close>. The text of a caught exception, which the source appends to
  its log lines, is left out of them.
\<close>

definition send_metric_to_prometheus ::
  "(export \<Rightarrow> bool) \<Rightarrow> string \<Rightarrow> real \<Rightarrow> string \<Rightarrow> (string \<times> string) list \<Rightarrow> state \<Rightarrow> state" where
  "send_metric_to_prometheus prometheus key v metric_type labels_dict s =
     (let c = Export key v metric_type labels_dict;
          s1 = s\<lparr>sent := sent s @ [c]\<rparr>
      in if prometheus c
         then logger ERROR (''Failed to send '' @ key @ '' metric to Prometheus'') s1
         else s1)"

text \<open>
  \<open>_send_metrics_to_prometheus\<close>: one call per field of the record. \<open>metric.pid\<close> on
  a record without that attribute raises \<open>AttributeError\<close>.
\<close>

fun send_metrics_to_prometheus ::
  "(export \<Rightarrow> bool) \<Rightarrow> metric \<Rightarrow> string \<Rightarrow> string list \<Rightarrow> (string \<times> string) list \<Rightarrow>
   state \<Rightarrow> unit result" where
  "send_metrics_to_prometheus prometheus m metric_type [] profiling_data s = (Inr (), s)"
| "send_metrics_to_prometheus prometheus m metric_type (key # keys) profiling_data s =
     (case getattr_field m key of
        None \<Rightarrow> send_metrics_to_prometheus prometheus m metric_type keys profiling_data s
      | Some metric_value \<Rightarrow>
          if metric_type \<noteq> ''network_metrics'' then
            (if kind_of m = Network then (Inl (AttributeError ''pid''), s)
             else
               let labels_dict =
                     AList.update ''parent_pid'' (str_opt_int (parent_pid m))
                       (AList.update ''pid'' (str_opt_int (pid m)) profiling_data)
               in send_metrics_to_prometheus prometheus m metric_type keys profiling_data
                    (send_metric_to_prometheus prometheus key metric_value ''gauge'' labels_dict s))
          else
            send_metrics_to_prometheus prometheus m metric_type keys profiling_data
              (send_metric_to_prometheus prometheus key metric_value ''gauge'' profiling_data s))"

text \<open>
  \<open>_send_metrics\<close>: for each of the four collections, the record at position \<open>index\<close>
  of the collection's list, if the list is that long.
\<close>

fun send_metrics_items ::
  "(export \<Rightarrow> bool) \<Rightarrow> (string \<times> string) list \<Rightarrow> nat \<Rightarrow> (string \<times> string list) list \<Rightarrow>
   state \<Rightarrow> state" where
  "send_metrics_items prometheus profiling_data index [] s = s"
| "send_metrics_items prometheus profiling_data index ((metric_type, keys) # items) s =
     (let metric_list = getattr_metrics s metric_type;
          s' = (if index < length metric_list then
                  (case send_metrics_to_prometheus prometheus (metric_list ! index) metric_type
                          keys profiling_data s of
                     (Inl e, s1) \<Rightarrow> logger ERROR (''Error while processing '' @ metric_type) s1
                   | (Inr _, s1) \<Rightarrow> s1)
                else s)
      in send_metrics_items prometheus profiling_data index items s')"

definition send_metrics :: "(export \<Rightarrow> bool) \<Rightarrow> (string \<times> string) list \<Rightarrow> nat \<Rightarrow> state \<Rightarrow> state" where
  "send_metrics prometheus profiling_data index s =
     send_metrics_items prometheus profiling_data index METRIC_COLLECTIONS_FIELDS s"

definition collect_metrics :: "world \<Rightarrow> int \<Rightarrow> nat \<Rightarrow> state \<Rightarrow> unit result" where
  "collect_metrics w monitored_process_pid index s =
     (case collect_all_metrics w monitored_process_pid (int index) s of
        (Inl (NoSuchProcess _), s') \<Rightarrow>
          (Inr (), logger WARNING (''Process '' @ str_int monitored_process_pid
                                   @ '' does not exist. Skipping metric collection.'') s')
      | (Inl e, s') \<Rightarrow> (Inl e, s')
      | (Inr _, s') \<Rightarrow> (Inr (), s'))"

definition collect_and_send_metrics ::
  "world \<Rightarrow> (export \<Rightarrow> bool) \<Rightarrow> (string \<times> string) list \<Rightarrow> int \<Rightarrow> nat \<Rightarrow> state \<Rightarrow> unit result" where
  "collect_and_send_metrics w prometheus profiling_data monitored_process_pid index s =
     (case collect_metrics w monitored_process_pid index s of
        (Inl e, s1) \<Rightarrow> (Inl e, s1)
      | (Inr _, s1) \<Rightarrow> (Inr (), send_metrics prometheus profiling_data index s1))"

text \<open>
  \<open>_check_stop_signal\<close>: \<open>poll\<close> finds a message or none; with the other end closed
  \<open>recv\<close> raises \<open>EOFError\<close>.
\<close>

definition check_stop_signal :: "world \<Rightarrow> state \<Rightarrow> bool result" where
  "check_stop_signal w s =
     (case conn_at w (ticks s) of
        NoData \<Rightarrow> (Inr False, s)
      | PeerClosed \<Rightarrow> (Inl EOFError, s)
      | Data message \<Rightarrow>
          if message = ''stop''
          then (Inr True, logger DEBUG ''Received stop signal, completing current data collection.'' s)
          else (Inr False, s))"

definition sleep_until_next_interval :: "world \<Rightarrow> real \<Rightarrow> real \<Rightarrow> state \<Rightarrow> state" where
  "sleep_until_next_interval w start_time profiler_timeout s =
     (let (t, s1) = time_time w s;
          elapsed_time = t - start_time;
          random_delay = jitter w (ticks s1);
          sleep_time = max 0 (profiler_timeout - elapsed_time + random_delay)
      in s1\<lparr>slept := slept s1 @ [sleep_time]\<rparr>)"

text \<open>
  One pass through the body of \<open>while True\<close>, with the inner \<open>try\<close>: the result
  \<open>True\<close> is a \<open>break\<close>.
\<close>

definition profiling_round ::
  "world \<Rightarrow> (export \<Rightarrow> bool) \<Rightarrow> (string \<times> string) list \<Rightarrow> int \<Rightarrow> real \<Rightarrow> nat \<Rightarrow> state \<Rightarrow>
   bool result" where
  "profiling_round w prometheus profiling_data monitored_process_pid profiler_timeout index s =
     (let (start_time, s0) = time_time w s;
          body =
            (case collect_and_send_metrics w prometheus profiling_data monitored_process_pid index s0 of
               (Inl e, s1) \<Rightarrow> (Inl e, s1)
             | (Inr _, s1) \<Rightarrow>
                 (case check_stop_signal w s1 of
                    (Inl e, s2) \<Rightarrow> (Inl e, s2)
                  | (Inr True, s2) \<Rightarrow> (Inr True, s2)
                  | (Inr False, s2) \<Rightarrow>
                      (Inr False, sleep_until_next_interval w start_time profiler_timeout s2)))
      in case body of
           (Inl (NoSuchProcess _), s') \<Rightarrow>
             (Inr True, logger WARNING
                          ''Monitored process no longer exists, stopping data collection.'' s')
         | r \<Rightarrow> r)"

text \<open>
  The loop, with fuel: \<open>None\<close> when the rounds allowed are used up before the loop has
  ended.
\<close>

fun profiling_loop ::
  "nat \<Rightarrow> world \<Rightarrow> (export \<Rightarrow> bool) \<Rightarrow> (string \<times> string) list \<Rightarrow> int \<Rightarrow> real \<Rightarrow> nat \<Rightarrow> state \<Rightarrow>
   unit result option" where
  "profiling_loop 0 w prometheus profiling_data root_pid profiler_timeout index s = None"
| "profiling_loop (Suc fuel) w prometheus profiling_data root_pid profiler_timeout index s =
     (case profiling_round w prometheus profiling_data root_pid profiler_timeout index s of
        (Inl e, s') \<Rightarrow> Some (Inl e, s')
      | (Inr True, s') \<Rightarrow> Some (Inr (), s')
      | (Inr False, s') \<Rightarrow>
          profiling_loop fuel w prometheus profiling_data root_pid profiler_timeout (Suc index) s')"

text \<open>
  \<open>start_profiling\<close>: the timeout is logged (the number is left out of the line),
  \<open>_initialize_process\<close> runs before the \<open>try\<close>; an exception of the loop is
  logged in two lines, the traceback and the message; the connection is closed in the
  \<open>finally\<close>.
\<close>

definition start_profiling ::
  "nat \<Rightarrow> world \<Rightarrow> int \<Rightarrow> (export \<Rightarrow> bool) \<Rightarrow> job \<Rightarrow> real \<Rightarrow> state \<Rightarrow> unit result option" where
  "start_profiling fuel w monitored_process_pid prometheus j profiler_timeout s =
     (let timeout = (if profiler_timeout = 0 then 10 else profiler_timeout);
          s0 = logger DEBUG ''Profiler timeout set'' s
      in case processes (now w s0) monitored_process_pid of
           None \<Rightarrow> Some (Inl (NoSuchProcess monitored_process_pid), s0)
         | Some _ \<Rightarrow>
             (case profiling_loop fuel w prometheus (prepare_profiling_data j)
                     monitored_process_pid timeout 0 s0 of
                None \<Rightarrow> None
              | Some (Inl e, s') \<Rightarrow>
                  Some (Inr (), (logger ERROR ''Exception in profiling process''
                                   (logger ERROR ''Traceback'' s'))
                                  \<lparr>conn_closed := True\<rparr>)
              | Some (Inr _, s') \<Rightarrow> Some (Inr (), s'\<lparr>conn_closed := True\<rparr>)))"

section \<open>worker/profiler\_context.py\<close>

text \<open>
  The release sequence works on three connection ends and on the monitor process. What
  these objects do is an input: the \<open>host\<close> tells, for the call made when the trace has
  length \<open>n\<close>, whether it raises, which boolean \<open>poll\<close> or \<open>is_alive\<close> returns, and
  which message \<open>recv\<close> returns. The trace lists the calls made and the lines logged, in
  order. \<open>Join (Some 5)\<close> is \<open>join(timeout=5)\<close>, \<open>Join None\<close> is \<open>join()\<close>.
\<close>

datatype conn = Parent_conn | Child_conn | Jobrunner_conn

datatype action =
    Start_process
  | Send conn string
  | Poll conn
  | Recv conn
  | Join "nat option"
  | Is_alive
  | Terminate
  | Close conn
  | Log level string

datatype outcome = Returned | Raised

record host =
  writable :: "conn \<Rightarrow> bool"
  raises :: "nat \<Rightarrow> bool"
  answer :: "nat \<Rightarrow> bool"
  received :: "nat \<Rightarrow> string"

definition call :: "host \<Rightarrow> action \<Rightarrow> action list \<Rightarrow> outcome \<times> action list" where
  "call h a tr = (if raises h (length tr) then Raised else Returned, tr @ [a])"

definition send_stop_signal :: "host \<Rightarrow> conn \<Rightarrow> action list \<Rightarrow> outcome \<times> action list" where
  "send_stop_signal h c tr =
     (if writable h c then call h (Send c ''stop'') tr
      else (Returned, tr @ [Log WARNING ''Parent connection is not writable'']))"

definition handle_jobrunner_signal :: "host \<Rightarrow> action list \<Rightarrow> outcome \<times> action list" where
  "handle_jobrunner_signal h tr =
     (case call h (Poll Jobrunner_conn) tr of
        (Raised, t1) \<Rightarrow> (Raised, t1)
      | (Returned, t1) \<Rightarrow>
          if answer h (length tr) then
            (case call h (Recv Jobrunner_conn) t1 of
               (Raised, t2) \<Rightarrow> (Raised, t2)
             | (Returned, t2) \<Rightarrow>
                 if received h (length t1) = ''Finished''
                 then send_stop_signal h Jobrunner_conn t2
                 else (Returned, t2))
          else (Returned, t1))"

definition terminate_and_join :: "host \<Rightarrow> action list \<Rightarrow> outcome \<times> action list" where
  "terminate_and_join h tr =
     (case call h Terminate tr of
        (Raised, t1) \<Rightarrow> (Raised, t1)
      | (Returned, t1) \<Rightarrow> call h (Join None) t1)"

text \<open>The \<open>try\<close> block of \<open>_finalize_process\<close>.\<close>

definition finalize_try :: "host \<Rightarrow> action list \<Rightarrow> outcome \<times> action list" where
  "finalize_try h tr =
     (case call h (Join (Some 5)) tr of
        (Raised, t1) \<Rightarrow> (Raised, t1)
      | (Returned, t1) \<Rightarrow>
          (case call h Is_alive t1 of
             (Raised, t2) \<Rightarrow> (Raised, t2)
           | (Returned, t2) \<Rightarrow>
               if answer h (length t1) then
                 terminate_and_join h
                   (t2 @ [Log WARNING ''Profiling process is still alive, terminating...''])
               else (Returned, t2)))"

text \<open>
  \<open>_finalize_process\<close>: the handler logs and tries the termination again; what its own
  calls raise leaves the function.
\<close>

definition finalize_process :: "host \<Rightarrow> action list \<Rightarrow> outcome \<times> action list" where
  "finalize_process h tr =
     (case finalize_try h tr of
        (Returned, t) \<Rightarrow> (Returned, t)
      | (Raised, t) \<Rightarrow>
          (let t1 = t @ [Log ERROR ''Error finalizing profiling process'']
           in case call h Is_alive t1 of
                (Raised, t2) \<Rightarrow> (Raised, t2)
              | (Returned, t2) \<Rightarrow>
                  if answer h (length t1) then terminate_and_join h t2 else (Returned, t2)))"

definition close_connections :: "host \<Rightarrow> action list \<Rightarrow> outcome \<times> action list" where
  "close_connections h tr =
     (case call h (Close Parent_conn) tr of
        (Raised, t1) \<Rightarrow> (Returned, t1 @ [Log ERROR ''Error closing pipe connections''])
      | (Returned, t1) \<Rightarrow>
          (case call h (Close Child_conn) t1 of
             (Raised, t2) \<Rightarrow> (Returned, t2 @ [Log ERROR ''Error closing pipe connections''])
           | (Returned, t2) \<Rightarrow> (Returned, t2)))"

text \<open>The \<open>finally\<close> block of \<open>profiling_context\<close>.\<close>

definition release :: "host \<Rightarrow> action list \<Rightarrow> outcome \<times> action list" where
  "release h tr =
     (let t1 = (case send_stop_signal h Parent_conn tr of
                  (Raised, t) \<Rightarrow> t @ [Log ERROR ''Failed to send stop signal'']
                | (Returned, t) \<Rightarrow> t);
          t2 = (case handle_jobrunner_signal h t1 of
                  (Raised, t) \<Rightarrow> t @ [Log ERROR ''Error handling jobrunner signal'']
                | (Returned, t) \<Rightarrow> t)
      in case finalize_process h t2 of
           (Raised, t3) \<Rightarrow> (Raised, t3)
         | (Returned, t3) \<Rightarrow> close_connections h t3)"

text \<open>
  \<open>profiling_context\<close>: the monitor is started, the body of the \<open>with\<close> statement
  returns or raises, and the \<open>finally\<close> block runs; an exception of the body goes on
  after it unless the block raised itself.
\<close>

definition profiling_context :: "host \<Rightarrow> outcome \<Rightarrow> outcome \<times> action list" where
  "profiling_context h body =
     (case release h [Start_process] of
        (Raised, t) \<Rightarrow> (Raised, t)
      | (Returned, t) \<Rightarrow> (body, t))"

section \<open>util/metrics.py\<close>

record exporter =
  enabled :: bool
  apigateway :: "string option"
  exporter_job :: string
  exporter_instance :: string

text \<open>
  \<open>PrometheusExporter.__init__\<close>: \<open>config\<close> is a dictionary or \<open>None\<close>, \<open>environ\<close>
  is \<open>os.environ\<close>; \<open>sid.split('-')[0]\<close> is the part of \<open>sid\<close> before its first
  \<open>-\<close>.
\<close>

definition PrometheusExporter_init ::
  "bool \<Rightarrow> (string \<times> string) list option \<Rightarrow> (string \<Rightarrow> string option) \<Rightarrow> error + exporter" where
  "PrometheusExporter_init enabled_arg config environ =
     (let gateway = (case config of
                       None \<Rightarrow> None
                     | Some c \<Rightarrow> if c = [] then None else map_of c ''apigateway'')
      in case environ ''__LITHOPS_SESSION_ID'' of
           None \<Rightarrow> Inl (KeyError ''__LITHOPS_SESSION_ID'')
         | Some sid \<Rightarrow>
             Inr \<lparr>enabled = enabled_arg, apigateway = gateway, exporter_job = ''lithops'',
                  exporter_instance = takeWhile (\<lambda>c. c \<noteq> CHR ''-'') sid\<rparr>)"

text \<open>
  \<open>send_metric\<close> with a dictionary of labels: the requests it posts, none or one. The
  body of the request is kept in its parts; what the gateway answers only goes to the
  log and is left out.
\<close>

record request =
  url :: string
  body_name :: string
  body_type :: string
  body_value :: real
  body_timestamp_ms :: "int option"

fun join_slash :: "string list \<Rightarrow> string" where
  "join_slash [] = []"
| "join_slash [x] = x"
| "join_slash (x # y # zs) = x @ ''/'' @ join_slash (y # zs)"

definition send_metric ::
  "exporter \<Rightarrow> string \<Rightarrow> real \<Rightarrow> string \<Rightarrow> (string \<times> string) list \<Rightarrow> real option \<Rightarrow> request list" where
  "send_metric e name v type labels timestamp_arg =
     (case apigateway e of
        None \<Rightarrow> []
      | Some gateway \<Rightarrow>
          if enabled e \<and> gateway \<noteq> [] then
            let dim = ''job/'' @ exporter_job e @ ''/instance/'' @ exporter_instance e
                      @ concat (map (\<lambda>(key, val). ''/'' @ key @ ''/'' @ val) labels)
            in [\<lparr>url = join_slash [gateway, ''metrics'', dim],
                 body_name = name, body_type = type, body_value = v,
                 body_timestamp_ms =
                   (case timestamp_arg of
                      None \<Rightarrow> None
                    | Some t \<Rightarrow> if t = 0 then None
                               else Some (if t * 1000 < 0 then \<lceil>t * 1000\<rceil> else \<lfloor>t * 1000\<rfloor>))\<rparr>]
          else [])"

section \<open>The specification's words, and example inputs\<close>

text \<open>
  The rule for a rate as the specification states it: the difference of the cumulative
  values over the time between the two samples if there is a previous sample (its
  cumulative value and its time) and that time is positive, else 0.
\<close>

definition derived_rate :: "real \<Rightarrow> real \<Rightarrow> (real \<times> real) option \<Rightarrow> real" where
  "derived_rate current_cumulative t previous =
     (case previous of
        None \<Rightarrow> 0
      | Some (previous_cumulative, t_previous) \<Rightarrow>
          if t - t_previous > 0
          then (current_cumulative - previous_cumulative) / (t - t_previous)
          else 0)"

text \<open>
  The previous sample of a subject, as the specification states it: the most recent
  record of the sequence with that pid, if there is one.
\<close>

definition previous_sample :: "metric list \<Rightarrow> int \<Rightarrow> metric option" where
  "previous_sample metrics p =
     (case filter (\<lambda>m. pid m = Some p) metrics of
        [] \<Rightarrow> None
      | m # ms \<Rightarrow> Some (last (m # ms)))"

text \<open>
  \<open>sample_of k p index t m\<close>: \<open>m\<close> is a record of kind \<open>k\<close> about process \<open>p\<close>,
  made in round \<open>index\<close> with time stamp \<open>t\<close>. \<open>sampled_in_order\<close>: the three lists
  hold one record for each process of \<open>ps\<close>, in the order of \<open>ps\<close>, and the time stamps
  of the records of the \<open>i\<close>-th process are the clock readings number \<open>3i\<close>, \<open>3i + 1\<close>
  and \<open>3i + 2\<close> after \<open>t0\<close>, for Memory, CPU and Disk in this order.
  \<open>alive_during\<close>: every process of \<open>ps\<close> exists at every tick from \<open>t0\<close> to \<open>t1\<close>.
\<close>

definition sample_of :: "kind \<Rightarrow> int \<Rightarrow> int \<Rightarrow> real \<Rightarrow> metric \<Rightarrow> bool" where
  "sample_of k p index t m =
     (kind_of m = k \<and> pid m = Some p \<and> collection_id m = index \<and> timestamp m = t)"

definition sampled_in_order ::
  "world \<Rightarrow> nat \<Rightarrow> int \<Rightarrow> int list \<Rightarrow> metric list \<Rightarrow> metric list \<Rightarrow> metric list \<Rightarrow> bool" where
  "sampled_in_order w t0 index ps mem cpu dsk =
     (length mem = length ps \<and> length cpu = length ps \<and> length dsk = length ps \<and>
      (\<forall>i < length ps.
         sample_of Memory (ps ! i) index (clock w (t0 + 3 * i)) (mem ! i) \<and>
         sample_of CPU (ps ! i) index (clock w (t0 + 3 * i + 1)) (cpu ! i) \<and>
         sample_of Disk (ps ! i) index (clock w (t0 + 3 * i + 2)) (dsk ! i)))"

definition alive_during :: "world \<Rightarrow> nat \<Rightarrow> nat \<Rightarrow> int list \<Rightarrow> bool" where
  "alive_during w t0 t1 ps =
     (\<forall>t. t0 \<le> t \<and> t \<le> t1 \<longrightarrow> (\<forall>p \<in> set ps. processes (os_at w t) p \<noteq> None))"

text \<open>
  Example inputs. \<open>example_system\<close>: a root process 1 with the children 2 and 3.
  \<open>example_world\<close>: that system at every tick, the clock showing the tick, no message
  on the control channel. \<open>vanishing_world\<close>: the root is there at tick 0 and gone from
  tick 1 on, and a stop token is on the channel from tick 3 on. \<open>disk_world\<close>: process 7
  has read 10 MB when the clock shows 0 and 15 MB when it shows 5.
\<close>

definition example_process :: "int \<Rightarrow> int list \<Rightarrow> nat \<Rightarrow> process" where
  "example_process parent kids bytes =
     \<lparr>ppid = parent, children = kids, rss = 64 * 2 ^ 20, cpu_percent = 5,
      cpu_times_user = 1, cpu_times_system = 1 / 2,
      cpu_times_children_user = Some 0, cpu_times_children_system = Some 0,
      cpu_times_iowait = None, read_bytes = bytes, write_bytes = 0\<rparr>"

definition example_system :: system where
  "example_system =
     \<lparr>processes = (\<lambda>p. if p = 1 then Some (example_process 0 [2, 3] 0)
                       else if p = 2 then Some (example_process 1 [] 0)
                       else if p = 3 then Some (example_process 1 [] 0)
                       else None),
      bytes_recv = 0, bytes_sent = 0\<rparr>"

definition example_world :: world where
  "example_world =
     \<lparr>clock = real, os_at = (\<lambda>t. example_system), conn_at = (\<lambda>t. NoData), jitter = (\<lambda>t. 0)\<rparr>"

definition initial_state :: state where
  "initial_state =
     \<lparr>cpu_metrics = [], memory_metrics = [], disk_metrics = [], network_metrics = [],
      logged = [], ticks = 0, sent = [], slept = [], conn_closed = False\<rparr>"

definition example_job :: job where
  "example_job = \<lparr>job_id = ''J'', executor_id = ''E'', call_id = ''C''\<rparr>"

definition vanishing_world :: world where
  "vanishing_world =
     \<lparr>clock = real,
      os_at = (\<lambda>t. if t = 0 then example_system
                   else \<lparr>processes = (\<lambda>p. None), bytes_recv = 0, bytes_sent = 0\<rparr>),
      conn_at = (\<lambda>t. if t < 3 then NoData else Data ''stop''),
      jitter = (\<lambda>t. 0)\<rparr>"

definition disk_system :: "nat \<Rightarrow> system" where
  "disk_system mb =
     \<lparr>processes = (\<lambda>p. if p = 7 then Some (example_process 1 [] (mb * 1024 ^ 2)) else None),
      bytes_recv = 0, bytes_sent = 0\<rparr>"

definition disk_world :: world where
  "disk_world =
     \<lparr>clock = (\<lambda>t. if t = 0 then 0 else 5),
      os_at = (\<lambda>t. if t \<le> 1 then disk_system 10 else disk_system 15),
      conn_at = (\<lambda>t. NoData), jitter = (\<lambda>t. 0)\<rparr>"

text \<open>
  \<open>foreign_host\<close>: the release runs in a process that is not the parent of the monitor
  (a fork inside the scope), where \<open>join\<close> and \<open>is_alive\<close> of
  \<open>multiprocessing.Process\<close> fail their assertion: the calls made at trace lengths 3 and
  5 raise.
\<close>

definition foreign_host :: host where
  "foreign_host =
     \<lparr>writable = (\<lambda>c. True), raises = (\<lambda>n. n = 3 \<or> n = 5), answer = (\<lambda>n. False),
      received = (\<lambda>n. [])\<rparr>"

text \<open>
  \<open>fading_world\<close>: the example system up to tick 3, when a round started at tick 0
  asks child 2 for its parent, and from tick 4 on the same system without process 2.
\<close>

definition fading_world :: world where
  "fading_world =
     \<lparr>clock = real,
      os_at = (\<lambda>t. if t \<le> 3 then example_system
                   else \<lparr>processes = (\<lambda>p. if p = 1 then Some (example_process 0 [3] 0)
                                          else if p = 3 then Some (example_process 1 [] 0)
                                          else None),
                         bytes_recv = 0, bytes_sent = 0\<rparr>),
      conn_at = (\<lambda>t. NoData), jitter = (\<lambda>t. 0)\<rparr>"

section \<open>Properties of the metric records\<close>

lemma network_add:
  "metric_add (NetworkMetric t c a1 a2 a3 a4) (NetworkMetric t' c' b1 b2 b3 b4)
     = Inr (NetworkMetric (max t t') c (a1 + b1) (a2 + b2) (a3 + b3) (a4 + b4))"
  by (simp add: metric_add_def isinstance_def dataclass_init_def getattr0_def kwarg_def)

lemma network_sub:
  "metric_sub (NetworkMetric t c a1 a2 a3 a4) (NetworkMetric t' c' b1 b2 b3 b4)
     = Inr (NetworkMetric (max t t') c (a1 - b1) (a2 - b2) (a3 - b3) (a4 - b4))"
  by (simp add: metric_sub_def isinstance_def dataclass_init_def getattr0_def kwarg_def)

lemma network_truediv:
  "n \<noteq> 0 \<Longrightarrow>
   metric_truediv (NetworkMetric t c a1 a2 a3 a4) n
     = Inr (NetworkMetric t c (a1 / n) (a2 / n) (a3 / n) (a4 / n))"
  by (simp add: metric_truediv_def dataclass_init_def getattr0_def kwarg_def)

lemma truediv_by_zero: "metric_truediv a 0 = Inl (ValueError ''Cannot divide by zero.'')"
  by (simp add: metric_truediv_def)

text \<open>
  A process-scoped record (CPU, Memory, Disk) cannot be the result of the arithmetic:
  \<open>new_data\<close> has no \<open>pid\<close> and no \<open>parent_pid\<close>, which the constructor requires.
\<close>

lemma process_metric_add:
  "kind_of a \<noteq> Network \<Longrightarrow> kind_of b = kind_of a \<Longrightarrow>
   metric_add a b = Inl (TypeError_missing (class_name (kind_of a)) [''pid'', ''parent_pid''])"
  by (cases a) (simp_all add: metric_add_def isinstance_def dataclass_init_def)

lemma process_metric_sub:
  "kind_of a \<noteq> Network \<Longrightarrow> kind_of b = kind_of a \<Longrightarrow>
   metric_sub a b = Inl (TypeError_missing (class_name (kind_of a)) [''pid'', ''parent_pid''])"
  by (cases a) (simp_all add: metric_sub_def isinstance_def dataclass_init_def)

lemma process_metric_truediv:
  "kind_of a \<noteq> Network \<Longrightarrow> n \<noteq> 0 \<Longrightarrow>
   metric_truediv a n = Inl (TypeError_missing (class_name (kind_of a)) [''pid'', ''parent_pid''])"
  by (cases a) (simp_all add: metric_truediv_def dataclass_init_def)

text \<open>
  For Network records the sum is undone by the difference and does not depend on the
  order of the operands, up to \<open>collection_id\<close>, which is the left operand's.
\<close>

lemma network_add_sub:
  assumes "kind_of a = Network" "kind_of b = Network"
  shows "\<exists>c d. metric_add a b = Inr c \<and> metric_sub c b = Inr d \<and>
               (\<forall>f \<in> set (METRIC_TYPES_FIELDS Network). getattr_field d f = getattr_field a f)"
proof -
  obtain t c a1 a2 a3 a4 where a: "a = NetworkMetric t c a1 a2 a3 a4"
    using assms(1) by (cases a) simp_all
  obtain t' c' b1 b2 b3 b4 where b: "b = NetworkMetric t' c' b1 b2 b3 b4"
    using assms(2) by (cases b) simp_all
  show ?thesis
    by (simp add: a b network_add network_sub)
qed

lemma network_add_commute:
  assumes "kind_of a = Network" "kind_of b = Network"
  shows "\<exists>c d. metric_add a b = Inr c \<and> metric_add b a = Inr d \<and> timestamp c = timestamp d \<and>
               (\<forall>f \<in> set (METRIC_TYPES_FIELDS Network). getattr_field c f = getattr_field d f)"
proof -
  obtain t c a1 a2 a3 a4 where a: "a = NetworkMetric t c a1 a2 a3 a4"
    using assms(1) by (cases a) simp_all
  obtain t' c' b1 b2 b3 b4 where b: "b = NetworkMetric t' c' b1 b2 b3 b4"
    using assms(2) by (cases b) simp_all
  show ?thesis
    by (simp add: a b network_add max.commute add.commute)
qed

text \<open>
  C3. Adding or subtracting two records of different concrete kinds fails with the
  \<open>TypeError\<close> of the type check, which names the two classes; so an addition or a
  subtraction that returns a record was between two records of the same kind.
\<close>

theorem cross_kind_arithmetic_fails:
  "(kind_of a \<noteq> kind_of b \<longrightarrow>
      metric_add a b = Inl (TypeError (''Cannot add different metric types: ''
                              @ class_name (kind_of a) @ '' and '' @ class_name (kind_of b)))
    \<and> metric_sub a b = Inl (TypeError (''Cannot subtract different metric types: ''
                              @ class_name (kind_of a) @ '' and '' @ class_name (kind_of b))))
   \<and> (metric_add a b = Inr r \<or> metric_sub a b = Inr r \<longrightarrow> kind_of a = kind_of b)"
  by (auto simp: metric_add_def metric_sub_def isinstance_def split: if_splits)

theorem cross_kind_arithmetic_fails_witness:
  "kind_of (CPUMetric 1 0 (Some 7) (Some 1) 50 2 1 0 0 0) \<noteq> kind_of (MemoryMetric 1 0 (Some 7) (Some 1) 64)
   \<and> metric_add (CPUMetric 1 0 (Some 7) (Some 1) 50 2 1 0 0 0) (MemoryMetric 1 0 (Some 7) (Some 1) 64)
       = Inl (TypeError ''Cannot add different metric types: CPUMetric and MemoryMetric'')
   \<and> metric_sub (CPUMetric 1 0 (Some 7) (Some 1) 50 2 1 0 0 0) (MemoryMetric 1 0 (Some 7) (Some 1) 64)
       = Inl (TypeError ''Cannot subtract different metric types: CPUMetric and MemoryMetric'')
   \<and> metric_add (NetworkMetric 1 0 10 20 0 0) (NetworkMetric 2 1 1 2 3 4)
       = Inr (NetworkMetric 2 0 11 22 3 4)
   \<and> kind_of (NetworkMetric 1 0 10 20 0 0) = kind_of (NetworkMetric 2 1 1 2 3 4)"
  using cross_kind_arithmetic_fails
          [of "CPUMetric 1 0 (Some 7) (Some 1) 50 2 1 0 0 0" "MemoryMetric 1 0 (Some 7) (Some 1) 64"]
        cross_kind_arithmetic_fails
          [of "NetworkMetric 1 0 10 20 0 0" "NetworkMetric 2 1 1 2 3 4" "NetworkMetric 2 0 11 22 3 4"]
  by (simp add: network_add)

text \<open>
  C4. The claim asks that \<open>(A + B) - B\<close> gives back the additive fields of \<open>A\<close> and
  that \<open>A + B\<close> is commutative, for records of one kind. For two Memory records the sum
  is not a record: the constructor call of \<open>__add__\<close> raises \<open>TypeError\<close>, in either
  order of the operands.
\<close>

theorem add_of_memory_metrics_raises:
  "metric_add (MemoryMetric 0 0 (Some 7) (Some 1) 10) (MemoryMetric 5 1 (Some 7) (Some 1) 15)
     = Inl (TypeError_missing ''MemoryMetric'' [''pid'', ''parent_pid''])
   \<and> metric_add (MemoryMetric 5 1 (Some 7) (Some 1) 15) (MemoryMetric 0 0 (Some 7) (Some 1) 10)
     = Inl (TypeError_missing ''MemoryMetric'' [''pid'', ''parent_pid''])"
  by (simp add: metric_add_def isinstance_def dataclass_init_def)

text \<open>
  C5. The claim asks that \<open>A / n\<close> with \<open>n \<noteq> 0\<close> is a record of the kind of \<open>A\<close>
  with every additive field divided by \<open>n\<close>. For a Memory record and \<open>n = 2\<close> the
  constructor call of \<open>__truediv__\<close> raises \<open>TypeError\<close>; the division by zero is
  refused with \<open>ValueError\<close> as claimed.
\<close>

theorem truediv_of_memory_metric_raises:
  "metric_truediv (MemoryMetric 0 0 (Some 7) (Some 1) 10) 2
     = Inl (TypeError_missing ''MemoryMetric'' [''pid'', ''parent_pid''])
   \<and> metric_truediv (MemoryMetric 0 0 (Some 7) (Some 1) 10) 0
     = Inl (ValueError ''Cannot divide by zero.'')"
  by (simp add: metric_truediv_def dataclass_init_def)

section \<open>Properties of the exporter\<close>

lemma send_metric_noop:
  "\<not> enabled e \<or> apigateway e = None \<or> apigateway e = Some [] \<Longrightarrow>
   send_metric e name v type labels timestamp_arg = []"
  by (auto simp: send_metric_def split: option.splits)

text \<open>
  C10. Whatever \<open>enabled\<close> and \<open>config\<close> are, constructing the exporter with
  \<open>__LITHOPS_SESSION_ID\<close> not in the environment raises \<open>KeyError\<close>.
\<close>

theorem exporter_init_needs_session_id:
  "environ ''__LITHOPS_SESSION_ID'' = None \<Longrightarrow>
   PrometheusExporter_init enabled_arg config environ = Inl (KeyError ''__LITHOPS_SESSION_ID'')"
  by (simp add: PrometheusExporter_init_def)

theorem exporter_init_needs_session_id_witness:
  "Map.empty ''__LITHOPS_SESSION_ID'' = (None :: string option)
   \<and> PrometheusExporter_init False None Map.empty = Inl (KeyError ''__LITHOPS_SESSION_ID'')
   \<and> PrometheusExporter_init True (Some [(''apigateway'', ''http://gw'')]) Map.empty
       = Inl (KeyError ''__LITHOPS_SESSION_ID'')"
  using exporter_init_needs_session_id [of Map.empty False None]
        exporter_init_needs_session_id [of Map.empty True "Some [(''apigateway'', ''http://gw'')]"]
  by simp

section \<open>Properties of the collectors\<close>

lemmas collector_defs =
  collect_all_metrics_def get_process_list_def collect_metrics_for_process_def
  collect_metric_def collect_metric_global_def time_time_def handle_psutil_error_def
  memory_collect_def cpu_collect_def disk_collect_def network_collect_def now_def
  find_previous_metric_def find_previous_global_def calculate_rates_def getattr_default_def
  logger_def

lemma example_world_simps:
  "clock example_world t = real t"
  "os_at example_world t = example_system"
  "conn_at example_world t = NoData"
  "jitter example_world t = 0"
  by (simp_all add: example_world_def)

lemma example_system_simps:
  "processes example_system 1 = Some (example_process 0 [2, 3] 0)"
  "processes example_system 2 = Some (example_process 1 [] 0)"
  "processes example_system 3 = Some (example_process 1 [] 0)"
  "processes example_system 99 = None"
  "bytes_recv example_system = 0"
  "bytes_sent example_system = 0"
  by (simp_all add: example_system_def)

subsection \<open>The previous sample\<close>

text \<open>
  Searching the reversed list for the first record of the pid finds the last record of
  the pid in the list.
\<close>

lemma find_rev_last:
  "find P (rev xs) = (case filter P xs of [] \<Rightarrow> None | y # ys \<Rightarrow> Some (last (y # ys)))"
proof (induction xs rule: rev_induct)
  case Nil
  then show ?case by simp
next
  case (snoc x xs)
  then show ?case by (simp split: list.splits)
qed

lemma find_previous_metric_eq: "find_previous_metric metrics p = previous_sample metrics p"
  by (simp add: find_previous_metric_def previous_sample_def find_rev_last)

lemma previous_sample_None:
  "(\<forall>q \<in> set metrics. pid q \<noteq> Some p) \<Longrightarrow> previous_sample metrics p = None"
  by (simp add: previous_sample_def filter_empty_conv split: list.splits)

subsection \<open>Rates\<close>

lemma disk_collect_rates:
  assumes "processes (now w s) p = Some proc"
  shows "\<exists>m. disk_collect w p pp ts cid s = (Inr m, s\<lparr>disk_metrics := disk_metrics s @ [m]\<rparr>)
     \<and> disk_read_mb m = real (read_bytes proc) / 1024 ^ 2
     \<and> disk_write_mb m = real (write_bytes proc) / 1024 ^ 2
     \<and> disk_read_rate m = derived_rate (disk_read_mb m) ts
          (map_option (\<lambda>q. (disk_read_mb q, timestamp q)) (previous_sample (disk_metrics s) p))
     \<and> disk_write_rate m = derived_rate (disk_write_mb m) ts
          (map_option (\<lambda>q. (disk_write_mb q, timestamp q)) (previous_sample (disk_metrics s) p))"
  using assms
  by (simp add: disk_collect_def find_previous_metric_eq derived_rate_def calculate_rates_def
        Let_def split: option.splits)

lemma network_collect_rates:
  "\<exists>m. network_collect w ts cid s = (Inr m, s\<lparr>network_metrics := network_metrics s @ [m]\<rparr>)
     \<and> net_read_mb m = real (bytes_recv (now w s)) / 1024 ^ 2
     \<and> net_write_mb m = real (bytes_sent (now w s)) / 1024 ^ 2
     \<and> net_read_rate m = derived_rate (net_read_mb m) ts
          (map_option (\<lambda>q. (net_read_mb q, timestamp q))
             (if network_metrics s = [] then None else Some (last (network_metrics s))))
     \<and> net_write_rate m = derived_rate (net_write_mb m) ts
          (map_option (\<lambda>q. (net_write_mb q, timestamp q))
             (if network_metrics s = [] then None else Some (last (network_metrics s))))"
  by (simp add: network_collect_def find_previous_global_def derived_rate_def calculate_rates_def
        Let_def split: option.splits)

lemma disk_world_simps:
  "clock disk_world 0 = 0"
  "clock disk_world (Suc t) = 5"
  "os_at disk_world (Suc 0) = disk_system 10"
  "os_at disk_world (Suc (Suc t)) = disk_system 15"
  "processes (disk_system mb) 7 = Some (example_process 1 [] (mb * 1024 ^ 2))"
  by (simp_all add: disk_world_def disk_system_def)

lemma disk_example_first:
  "collect_metric disk_collect disk_world 7 1 0 initial_state
     = (Inr (Some (DiskMetric 0 0 (Some 7) (Some 1) 10 0 0 0)),
        initial_state\<lparr>ticks := 1, disk_metrics := [DiskMetric 0 0 (Some 7) (Some 1) 10 0 0 0]\<rparr>)"
  by (simp add: collector_defs disk_world_simps example_process_def initial_state_def Let_def)

lemma disk_example_second:
  "collect_metric disk_collect disk_world 7 1 1
     (initial_state\<lparr>ticks := 1, disk_metrics := [DiskMetric 0 0 (Some 7) (Some 1) 10 0 0 0]\<rparr>)
     = (Inr (Some (DiskMetric 5 1 (Some 7) (Some 1) 15 0 1 0)),
        initial_state\<lparr>ticks := 2,
          disk_metrics := [DiskMetric 0 0 (Some 7) (Some 1) 10 0 0 0,
                           DiskMetric 5 1 (Some 7) (Some 1) 15 0 1 0]\<rparr>)"
  by (simp add: collector_defs disk_world_simps example_process_def initial_state_def Let_def
        numeral_2_eq_2)

text \<open>
  C6. A Disk record's rates are the derived rates of its cumulative values against the
  previous sample of the same pid, and a Network record's against the last Network
  record: the difference over the elapsed time if there is a previous sample and the
  time is positive, else 0. The first sample of a subject has both rates 0. In the
  example (10 MB read at time 0, 15 MB at time 5) the read rate of the second sample
  is 1.
\<close>

theorem rates_are_derived:
  "(processes (now w s) p = Some proc \<longrightarrow>
      (\<exists>m. disk_collect w p pp ts cid s = (Inr m, s\<lparr>disk_metrics := disk_metrics s @ [m]\<rparr>)
         \<and> disk_read_mb m = real (read_bytes proc) / 1024 ^ 2
         \<and> disk_write_mb m = real (write_bytes proc) / 1024 ^ 2
         \<and> disk_read_rate m = derived_rate (disk_read_mb m) ts
              (map_option (\<lambda>q. (disk_read_mb q, timestamp q)) (previous_sample (disk_metrics s) p))
         \<and> disk_write_rate m = derived_rate (disk_write_mb m) ts
              (map_option (\<lambda>q. (disk_write_mb q, timestamp q)) (previous_sample (disk_metrics s) p))
         \<and> ((\<forall>q \<in> set (disk_metrics s). pid q \<noteq> Some p) \<longrightarrow>
              disk_read_rate m = 0 \<and> disk_write_rate m = 0)))
   \<and> (\<exists>m. network_collect w ts cid s = (Inr m, s\<lparr>network_metrics := network_metrics s @ [m]\<rparr>)
         \<and> net_read_mb m = real (bytes_recv (now w s)) / 1024 ^ 2
         \<and> net_write_mb m = real (bytes_sent (now w s)) / 1024 ^ 2
         \<and> net_read_rate m = derived_rate (net_read_mb m) ts
              (map_option (\<lambda>q. (net_read_mb q, timestamp q))
                 (if network_metrics s = [] then None else Some (last (network_metrics s))))
         \<and> net_write_rate m = derived_rate (net_write_mb m) ts
              (map_option (\<lambda>q. (net_write_mb q, timestamp q))
                 (if network_metrics s = [] then None else Some (last (network_metrics s))))
         \<and> (network_metrics s = [] \<longrightarrow> net_read_rate m = 0 \<and> net_write_rate m = 0))
   \<and> (\<exists>m0 s0 m1 s1.
         collect_metric disk_collect disk_world 7 1 0 initial_state = (Inr (Some m0), s0)
         \<and> disk_read_mb m0 = 10 \<and> timestamp m0 = 0 \<and> disk_read_rate m0 = 0 \<and> disk_write_rate m0 = 0
         \<and> collect_metric disk_collect disk_world 7 1 1 s0 = (Inr (Some m1), s1)
         \<and> disk_read_mb m1 = 15 \<and> timestamp m1 = 5 \<and> disk_read_rate m1 = 1)"
proof (intro conjI impI)
  assume proc: "processes (now w s) p = Some proc"
  from disk_collect_rates [OF proc, of pp ts cid] obtain m where
    m: "disk_collect w p pp ts cid s = (Inr m, s\<lparr>disk_metrics := disk_metrics s @ [m]\<rparr>)"
       "disk_read_mb m = real (read_bytes proc) / 1024 ^ 2"
       "disk_write_mb m = real (write_bytes proc) / 1024 ^ 2"
       "disk_read_rate m = derived_rate (disk_read_mb m) ts
          (map_option (\<lambda>q. (disk_read_mb q, timestamp q)) (previous_sample (disk_metrics s) p))"
       "disk_write_rate m = derived_rate (disk_write_mb m) ts
          (map_option (\<lambda>q. (disk_write_mb q, timestamp q)) (previous_sample (disk_metrics s) p))"
    by blast
  have "(\<forall>q \<in> set (disk_metrics s). pid q \<noteq> Some p) \<longrightarrow>
          disk_read_rate m = 0 \<and> disk_write_rate m = 0"
    using m(4,5) by (simp add: previous_sample_None derived_rate_def)
  with m show "\<exists>m. disk_collect w p pp ts cid s = (Inr m, s\<lparr>disk_metrics := disk_metrics s @ [m]\<rparr>)
         \<and> disk_read_mb m = real (read_bytes proc) / 1024 ^ 2
         \<and> disk_write_mb m = real (write_bytes proc) / 1024 ^ 2
         \<and> disk_read_rate m = derived_rate (disk_read_mb m) ts
              (map_option (\<lambda>q. (disk_read_mb q, timestamp q)) (previous_sample (disk_metrics s) p))
         \<and> disk_write_rate m = derived_rate (disk_write_mb m) ts
              (map_option (\<lambda>q. (disk_write_mb q, timestamp q)) (previous_sample (disk_metrics s) p))
         \<and> ((\<forall>q \<in> set (disk_metrics s). pid q \<noteq> Some p) \<longrightarrow>
              disk_read_rate m = 0 \<and> disk_write_rate m = 0)"
    by blast
next
  from network_collect_rates [of w ts cid s] obtain m where
    m: "network_collect w ts cid s = (Inr m, s\<lparr>network_metrics := network_metrics s @ [m]\<rparr>)"
       "net_read_mb m = real (bytes_recv (now w s)) / 1024 ^ 2"
       "net_write_mb m = real (bytes_sent (now w s)) / 1024 ^ 2"
       "net_read_rate m = derived_rate (net_read_mb m) ts
              (map_option (\<lambda>q. (net_read_mb q, timestamp q))
                 (if network_metrics s = [] then None else Some (last (network_metrics s))))"
       "net_write_rate m = derived_rate (net_write_mb m) ts
              (map_option (\<lambda>q. (net_write_mb q, timestamp q))
                 (if network_metrics s = [] then None else Some (last (network_metrics s))))"
    by blast
  have "network_metrics s = [] \<longrightarrow> net_read_rate m = 0 \<and> net_write_rate m = 0"
    using m(4,5) by (simp add: derived_rate_def)
  with m show "\<exists>m. network_collect w ts cid s = (Inr m, s\<lparr>network_metrics := network_metrics s @ [m]\<rparr>)
         \<and> net_read_mb m = real (bytes_recv (now w s)) / 1024 ^ 2
         \<and> net_write_mb m = real (bytes_sent (now w s)) / 1024 ^ 2
         \<and> net_read_rate m = derived_rate (net_read_mb m) ts
              (map_option (\<lambda>q. (net_read_mb q, timestamp q))
                 (if network_metrics s = [] then None else Some (last (network_metrics s))))
         \<and> net_write_rate m = derived_rate (net_write_mb m) ts
              (map_option (\<lambda>q. (net_write_mb q, timestamp q))
                 (if network_metrics s = [] then None else Some (last (network_metrics s))))
         \<and> (network_metrics s = [] \<longrightarrow> net_read_rate m = 0 \<and> net_write_rate m = 0)"
    by blast
next
  show "\<exists>m0 s0 m1 s1.
         collect_metric disk_collect disk_world 7 1 0 initial_state = (Inr (Some m0), s0)
         \<and> disk_read_mb m0 = 10 \<and> timestamp m0 = 0 \<and> disk_read_rate m0 = 0 \<and> disk_write_rate m0 = 0
         \<and> collect_metric disk_collect disk_world 7 1 1 s0 = (Inr (Some m1), s1)
         \<and> disk_read_mb m1 = 15 \<and> timestamp m1 = 5 \<and> disk_read_rate m1 = 1"
    apply (rule exI [of _ "DiskMetric 0 0 (Some 7) (Some 1) 10 0 0 0"])
    apply (rule exI [of _ "initial_state\<lparr>ticks := 1,
             disk_metrics := [DiskMetric 0 0 (Some 7) (Some 1) 10 0 0 0]\<rparr>"])
    apply (rule exI [of _ "DiskMetric 5 1 (Some 7) (Some 1) 15 0 1 0"])
    apply (rule exI [of _ "initial_state\<lparr>ticks := 2,
             disk_metrics := [DiskMetric 0 0 (Some 7) (Some 1) 10 0 0 0,
                              DiskMetric 5 1 (Some 7) (Some 1) 15 0 1 0]\<rparr>"])
    apply (simp only: disk_example_first disk_example_second)
    apply simp
    done
qed

text \<open>
  The witness: the first sample of pid 7 in the example and the second one, taken by
  \<open>_collect\<close> at time 5, and a first Network sample.
\<close>

theorem rates_are_derived_witness:
  "processes (now disk_world (initial_state\<lparr>ticks := 1\<rparr>)) 7
     = Some (example_process 1 [] (10 * 1024 ^ 2))
   \<and> disk_metrics (initial_state\<lparr>ticks := 1\<rparr>) = []
   \<and> network_metrics (initial_state\<lparr>ticks := 1\<rparr>) = []
   \<and> (\<exists>m. disk_collect disk_world 7 1 0 0 (initial_state\<lparr>ticks := 1\<rparr>)
             = (Inr m, initial_state\<lparr>ticks := 1, disk_metrics := [m]\<rparr>)
          \<and> disk_read_mb m = 10 \<and> disk_read_rate m = 0 \<and> disk_write_rate m = 0)
   \<and> (\<exists>m. network_collect disk_world 0 0 (initial_state\<lparr>ticks := 1\<rparr>)
             = (Inr m, initial_state\<lparr>ticks := 1, network_metrics := [m]\<rparr>)
          \<and> net_read_rate m = 0 \<and> net_write_rate m = 0)
   \<and> processes (now disk_world (initial_state\<lparr>ticks := 2,
         disk_metrics := [DiskMetric 0 0 (Some 7) (Some 1) 10 0 0 0]\<rparr>)) 7
     = Some (example_process 1 [] (15 * 1024 ^ 2))
   \<and> (\<exists>m. disk_collect disk_world 7 1 5 1
             (initial_state\<lparr>ticks := 2, disk_metrics := [DiskMetric 0 0 (Some 7) (Some 1) 10 0 0 0]\<rparr>)
           = (Inr m, initial_state\<lparr>ticks := 2,
                       disk_metrics := [DiskMetric 0 0 (Some 7) (Some 1) 10 0 0 0, m]\<rparr>)
          \<and> disk_read_mb m = 15 \<and> disk_read_rate m = 1 \<and> disk_write_rate m = 0)"
proof -
  let ?s1 = "initial_state\<lparr>ticks := 1\<rparr>"
  let ?s2 = "initial_state\<lparr>ticks := 2, disk_metrics := [DiskMetric 0 0 (Some 7) (Some 1) 10 0 0 0]\<rparr>"
  have h1: "processes (now disk_world ?s1) 7 = Some (example_process 1 [] (10 * 1024 ^ 2))"
    by (simp add: now_def disk_world_simps)
  have e1: "\<forall>q \<in> set (disk_metrics ?s1). pid q \<noteq> Some 7"
    and n1: "network_metrics ?s1 = []"
    by (simp_all add: initial_state_def)
  have h2: "processes (now disk_world ?s2) 7 = Some (example_process 1 [] (15 * 1024 ^ 2))"
    by (simp add: now_def disk_world_simps numeral_2_eq_2)
  have bytes: "\<And>parent kids n. read_bytes (example_process parent kids n) = n"
    "\<And>parent kids n. write_bytes (example_process parent kids n) = 0"
    by (simp_all add: example_process_def)
  from rates_are_derived [of disk_world ?s1 7 "example_process 1 [] (10 * 1024 ^ 2)" 1 0 0] h1 e1 n1
  obtain m n where
    first: "disk_collect disk_world 7 1 0 0 ?s1 = (Inr m, ?s1\<lparr>disk_metrics := disk_metrics ?s1 @ [m]\<rparr>)"
      "disk_read_mb m = real (read_bytes (example_process 1 [] (10 * 1024 ^ 2))) / 1024 ^ 2"
      "disk_read_rate m = 0" "disk_write_rate m = 0"
    and net: "network_collect disk_world 0 0 ?s1 = (Inr n, ?s1\<lparr>network_metrics := network_metrics ?s1 @ [n]\<rparr>)"
      "net_read_rate n = 0" "net_write_rate n = 0"
    by blast
  from rates_are_derived [of disk_world ?s2 7 "example_process 1 [] (15 * 1024 ^ 2)" 1 5 1] h2
  obtain m' where
    second: "disk_collect disk_world 7 1 5 1 ?s2 = (Inr m', ?s2\<lparr>disk_metrics := disk_metrics ?s2 @ [m']\<rparr>)"
      "disk_read_mb m' = real (read_bytes (example_process 1 [] (15 * 1024 ^ 2))) / 1024 ^ 2"
      "disk_write_mb m' = real (write_bytes (example_process 1 [] (15 * 1024 ^ 2))) / 1024 ^ 2"
      "disk_read_rate m' = derived_rate (disk_read_mb m') 5
          (map_option (\<lambda>q. (disk_read_mb q, timestamp q)) (previous_sample (disk_metrics ?s2) 7))"
      "disk_write_rate m' = derived_rate (disk_write_mb m') 5
          (map_option (\<lambda>q. (disk_write_mb q, timestamp q)) (previous_sample (disk_metrics ?s2) 7))"
    by blast
  have m10: "disk_read_mb m = 10" using first(2) by (simp add: bytes)
  have m15: "disk_read_mb m' = 15" and w0: "disk_write_mb m' = 0"
    using second(2,3) by (simp_all add: bytes)
  have rate: "disk_read_rate m' = 1" "disk_write_rate m' = 0"
    using second(4,5) by (simp_all add: m15 w0 previous_sample_def derived_rate_def)
  have a: "\<exists>m. disk_collect disk_world 7 1 0 0 ?s1
             = (Inr m, initial_state\<lparr>ticks := 1, disk_metrics := [m]\<rparr>)
          \<and> disk_read_mb m = 10 \<and> disk_read_rate m = 0 \<and> disk_write_rate m = 0"
    using first m10 by (intro exI [of _ m]) (simp add: initial_state_def)
  have b: "\<exists>m. network_collect disk_world 0 0 ?s1
             = (Inr m, initial_state\<lparr>ticks := 1, network_metrics := [m]\<rparr>)
          \<and> net_read_rate m = 0 \<and> net_write_rate m = 0"
    using net by (intro exI [of _ n]) (simp add: initial_state_def)
  have c: "\<exists>m. disk_collect disk_world 7 1 5 1 ?s2
           = (Inr m, initial_state\<lparr>ticks := 2,
                       disk_metrics := [DiskMetric 0 0 (Some 7) (Some 1) 10 0 0 0, m]\<rparr>)
          \<and> disk_read_mb m = 15 \<and> disk_read_rate m = 1 \<and> disk_write_rate m = 0"
    using second(1) m15 rate by (intro exI [of _ m']) simp
  have d1: "disk_metrics ?s1 = []" by (simp add: initial_state_def)
  show ?thesis
    by (intro conjI) (rule h1 d1 n1 a b h2 c)+
qed

subsection \<open>A process that is gone\<close>

lemma collect_metric_absent:
  assumes "processes (os_at w (Suc (ticks s))) p = None"
  shows "collect_metric memory_collect w p pp cid s
           = (Inr None, s\<lparr>ticks := Suc (ticks s),
                          logged := logged s @ [(WARNING, ''Process no longer exists.'')]\<rparr>)"
    and "collect_metric cpu_collect w p pp cid s
           = (Inr None, s\<lparr>ticks := Suc (ticks s),
                          logged := logged s @ [(WARNING, ''Process no longer exists.'')]\<rparr>)"
    and "collect_metric disk_collect w p pp cid s
           = (Inr None, s\<lparr>ticks := Suc (ticks s),
                          logged := logged s @ [(WARNING, ''Process no longer exists.'')]\<rparr>)"
  using assms
  by (simp_all add: collect_metric_def time_time_def handle_psutil_error_def memory_collect_def
        cpu_collect_def disk_collect_def now_def logger_def)

lemma collect_metrics_for_process_absent:
  assumes "processes (os_at w (Suc (ticks s))) p = None"
      and "processes (os_at w (Suc (Suc (ticks s)))) p = None"
      and "processes (os_at w (Suc (Suc (Suc (ticks s))))) p = None"
  shows "collect_metrics_for_process w p pp cid s
            = (Inr (), s\<lparr>ticks := Suc (Suc (Suc (ticks s))),
                         logged := logged s @ [(WARNING, ''Process no longer exists.''),
                                               (WARNING, ''Process no longer exists.''),
                                               (WARNING, ''Process no longer exists.'')]\<rparr>)"
proof -
  let ?warn = "(WARNING, ''Process no longer exists.'')"
  let ?s1 = "s\<lparr>ticks := Suc (ticks s), logged := logged s @ [?warn]\<rparr>"
  let ?s2 = "?s1\<lparr>ticks := Suc (ticks ?s1), logged := logged ?s1 @ [?warn]\<rparr>"
  have m: "collect_metric memory_collect w p pp cid s = (Inr None, ?s1)"
    by (rule collect_metric_absent(1) [OF assms(1)])
  have c: "collect_metric cpu_collect w p pp cid ?s1 = (Inr None, ?s2)"
    by (rule collect_metric_absent(2)) (simp add: assms(2))
  have d: "collect_metric disk_collect w p pp cid ?s2
             = (Inr None, ?s2\<lparr>ticks := Suc (ticks ?s2), logged := logged ?s2 @ [?warn]\<rparr>)"
    by (rule collect_metric_absent(3)) (simp add: assms(3))
  show ?thesis
    by (simp only: collect_metrics_for_process_def m c d prod.case sum.case) simp
qed

subsection \<open>A round of the aggregator\<close>

lemma memory_collect_metric_alive:
  assumes "processes (os_at w (Suc (ticks s))) p \<noteq> None"
  obtains m where
    "collect_metric memory_collect w p pp index s
       = (Inr (Some m), s\<lparr>ticks := Suc (ticks s), memory_metrics := memory_metrics s @ [m]\<rparr>)"
    "sample_of Memory p index (clock w (ticks s)) m"
proof -
  from assms obtain pr where pr: "processes (os_at w (Suc (ticks s))) p = Some pr" by auto
  let ?m = "MemoryMetric (clock w (ticks s)) index (Some p) (Some pp) (real (rss pr div 2 ^ 20))"
  have "collect_metric memory_collect w p pp index s
       = (Inr (Some ?m), s\<lparr>ticks := Suc (ticks s), memory_metrics := memory_metrics s @ [?m]\<rparr>)"
    by (simp add: collect_metric_def time_time_def handle_psutil_error_def memory_collect_def
          now_def pr Let_def)
  moreover have "sample_of Memory p index (clock w (ticks s)) ?m"
    by (simp add: sample_of_def)
  ultimately show ?thesis using that by blast
qed

lemma cpu_collect_metric_alive:
  assumes "processes (os_at w (Suc (ticks s))) p \<noteq> None"
  obtains m where
    "collect_metric cpu_collect w p pp index s
       = (Inr (Some m), s\<lparr>ticks := Suc (ticks s), cpu_metrics := cpu_metrics s @ [m]\<rparr>)"
    "sample_of CPU p index (clock w (ticks s)) m"
proof -
  from assms obtain pr where pr: "processes (os_at w (Suc (ticks s))) p = Some pr" by auto
  let ?m = "CPUMetric (clock w (ticks s)) index (Some p) (Some pp) (cpu_percent pr)
                  (cpu_times_user pr) (cpu_times_system pr)
                  (getattr_default (cpu_times_children_user pr))
                  (getattr_default (cpu_times_children_system pr))
                  (getattr_default (cpu_times_iowait pr))"
  have "collect_metric cpu_collect w p pp index s
       = (Inr (Some ?m), s\<lparr>ticks := Suc (ticks s), cpu_metrics := cpu_metrics s @ [?m]\<rparr>)"
    by (simp add: collect_metric_def time_time_def handle_psutil_error_def cpu_collect_def
          now_def pr Let_def)
  moreover have "sample_of CPU p index (clock w (ticks s)) ?m"
    by (simp add: sample_of_def)
  ultimately show ?thesis using that by blast
qed

lemma disk_collect_alive:
  assumes "processes (now w s) p = Some pr"
  obtains m where
    "disk_collect w p pp ts index s = (Inr m, s\<lparr>disk_metrics := disk_metrics s @ [m]\<rparr>)"
    "sample_of Disk p index ts m"
proof (cases "find_previous_metric (disk_metrics s) p")
  case None
  let ?m = "DiskMetric ts index (Some p) (Some pp) (real (read_bytes pr) / 1024 ^ 2)
              (real (write_bytes pr) / 1024 ^ 2) 0 0"
  have "disk_collect w p pp ts index s = (Inr ?m, s\<lparr>disk_metrics := disk_metrics s @ [?m]\<rparr>)"
    by (simp add: disk_collect_def assms None Let_def)
  moreover have "sample_of Disk p index ts ?m" by (simp add: sample_of_def)
  ultimately show ?thesis using that by blast
next
  case (Some prev)
  let ?td = "ts - timestamp prev"
  let ?m = "DiskMetric ts index (Some p) (Some pp) (real (read_bytes pr) / 1024 ^ 2)
              (real (write_bytes pr) / 1024 ^ 2)
              (calculate_rates (real (read_bytes pr) / 1024 ^ 2) (disk_read_mb prev) ?td)
              (calculate_rates (real (write_bytes pr) / 1024 ^ 2) (disk_write_mb prev) ?td)"
  have "disk_collect w p pp ts index s = (Inr ?m, s\<lparr>disk_metrics := disk_metrics s @ [?m]\<rparr>)"
    by (simp add: disk_collect_def assms Some Let_def)
  moreover have "sample_of Disk p index ts ?m" by (simp add: sample_of_def)
  ultimately show ?thesis using that by blast
qed

lemma disk_collect_metric_alive:
  assumes "processes (os_at w (Suc (ticks s))) p \<noteq> None"
  obtains m where
    "collect_metric disk_collect w p pp index s
       = (Inr (Some m), s\<lparr>ticks := Suc (ticks s), disk_metrics := disk_metrics s @ [m]\<rparr>)"
    "sample_of Disk p index (clock w (ticks s)) m"
proof -
  let ?s1 = "s\<lparr>ticks := Suc (ticks s)\<rparr>"
  from assms obtain pr where pr: "processes (now w ?s1) p = Some pr" by (auto simp: now_def)
  from disk_collect_alive [OF pr, of pp "clock w (ticks s)" index] obtain m where
    m: "disk_collect w p pp (clock w (ticks s)) index ?s1 = (Inr m, ?s1\<lparr>disk_metrics := disk_metrics ?s1 @ [m]\<rparr>)"
      "sample_of Disk p index (clock w (ticks s)) m"
    by blast
  have "collect_metric disk_collect w p pp index s
       = (Inr (Some m), s\<lparr>ticks := Suc (ticks s), disk_metrics := disk_metrics s @ [m]\<rparr>)"
    by (simp add: collect_metric_def time_time_def handle_psutil_error_def m(1))
  then show ?thesis using that m(2) by blast
qed

lemma collect_metrics_for_process_alive:
  assumes "processes (os_at w (ticks s + 1)) p \<noteq> None"
      and "processes (os_at w (ticks s + 2)) p \<noteq> None"
      and "processes (os_at w (ticks s + 3)) p \<noteq> None"
  obtains m c d where
    "collect_metrics_for_process w p pp index s
       = (Inr (), s\<lparr>ticks := ticks s + 3,
                    memory_metrics := memory_metrics s @ [m],
                    cpu_metrics := cpu_metrics s @ [c],
                    disk_metrics := disk_metrics s @ [d]\<rparr>)"
    "sample_of Memory p index (clock w (ticks s)) m"
    "sample_of CPU p index (clock w (ticks s + 1)) c"
    "sample_of Disk p index (clock w (ticks s + 2)) d"
proof -
  from assms(1) obtain m where
    m: "collect_metric memory_collect w p pp index s
         = (Inr (Some m), s\<lparr>ticks := Suc (ticks s), memory_metrics := memory_metrics s @ [m]\<rparr>)"
       "sample_of Memory p index (clock w (ticks s)) m"
    using memory_collect_metric_alive [of w s p pp index] by auto
  let ?s1 = "s\<lparr>ticks := Suc (ticks s), memory_metrics := memory_metrics s @ [m]\<rparr>"
  from assms(2) have "processes (os_at w (Suc (ticks ?s1))) p \<noteq> None" by simp
  then obtain c where
    c: "collect_metric cpu_collect w p pp index ?s1
         = (Inr (Some c), ?s1\<lparr>ticks := Suc (ticks ?s1), cpu_metrics := cpu_metrics ?s1 @ [c]\<rparr>)"
       "sample_of CPU p index (clock w (ticks ?s1)) c"
    using cpu_collect_metric_alive [of w ?s1 p pp index] by blast
  let ?s2 = "?s1\<lparr>ticks := Suc (ticks ?s1), cpu_metrics := cpu_metrics ?s1 @ [c]\<rparr>"
  from assms(3) have "processes (os_at w (Suc (ticks ?s2))) p \<noteq> None"
    by (simp add: numeral_3_eq_3)
  then obtain d where
    d: "collect_metric disk_collect w p pp index ?s2
         = (Inr (Some d), ?s2\<lparr>ticks := Suc (ticks ?s2), disk_metrics := disk_metrics ?s2 @ [d]\<rparr>)"
       "sample_of Disk p index (clock w (ticks ?s2)) d"
    using disk_collect_metric_alive [of w ?s2 p pp index] by blast
  have "collect_metrics_for_process w p pp index s
       = (Inr (), s\<lparr>ticks := ticks s + 3,
                    memory_metrics := memory_metrics s @ [m],
                    cpu_metrics := cpu_metrics s @ [c],
                    disk_metrics := disk_metrics s @ [d]\<rparr>)"
    by (simp only: collect_metrics_for_process_def m(1) c(1) d(1) prod.case sum.case) simp
  moreover have "sample_of CPU p index (clock w (ticks s + 1)) c" using c(2) by simp
  moreover have "sample_of Disk p index (clock w (ticks s + 2)) d" using d(2) by simp
  ultimately show ?thesis using that m(2) by blast
qed


lemma sampled_in_order_Cons:
  assumes "sample_of Memory p index (clock w t0) m"
      and "sample_of CPU p index (clock w (t0 + 1)) c"
      and "sample_of Disk p index (clock w (t0 + 2)) d"
      and "sampled_in_order w (t0 + 3) index ps mem cpu dsk"
  shows "sampled_in_order w t0 index (p # ps) (m # mem) (c # cpu) (d # dsk)"
  unfolding sampled_in_order_def
proof (intro conjI allI impI)
  fix i assume i: "i < length (p # ps)"
  show "sample_of Memory ((p # ps) ! i) index (clock w (t0 + 3 * i)) ((m # mem) ! i)"
    using assms(1,4) i by (cases i) (auto simp: sampled_in_order_def algebra_simps)
  show "sample_of CPU ((p # ps) ! i) index (clock w (t0 + 3 * i + 1)) ((c # cpu) ! i)"
    using assms(2,4) i by (cases i) (auto simp: sampled_in_order_def algebra_simps)
  show "sample_of Disk ((p # ps) ! i) index (clock w (t0 + 3 * i + 2)) ((d # dsk) ! i)"
    using assms(3,4) i by (cases i) (auto simp: sampled_in_order_def algebra_simps)
qed (use assms(4) in \<open>simp_all add: sampled_in_order_def\<close>)

lemma collect_processes_alive:
  assumes "alive_during w (ticks s) (ticks s + 3 * length ps) ps"
  shows "\<exists>s' mem cpu dsk.
           collect_processes w ps index s = (Inr (), s')
           \<and> ticks s' = ticks s + 3 * length ps
           \<and> memory_metrics s' = memory_metrics s @ mem
           \<and> cpu_metrics s' = cpu_metrics s @ cpu
           \<and> disk_metrics s' = disk_metrics s @ dsk
           \<and> network_metrics s' = network_metrics s
           \<and> logged s' = logged s
           \<and> sampled_in_order w (ticks s) index ps mem cpu dsk"
  using assms
proof (induction ps arbitrary: s)
  case Nil
  then show ?case by (simp add: sampled_in_order_def)
next
  case (Cons p ps)
  have alive: "\<And>t. ticks s \<le> t \<Longrightarrow> t \<le> ticks s + 3 + 3 * length ps \<Longrightarrow>
                  processes (os_at w t) p \<noteq> None \<and> (\<forall>q \<in> set ps. processes (os_at w t) q \<noteq> None)"
    using Cons.prems by (simp add: alive_during_def)
  from alive [of "ticks s"] obtain pr where pr: "processes (now w s) p = Some pr"
    by (auto simp: now_def)
  have a1: "processes (os_at w (ticks s + 1)) p \<noteq> None"
    and a2: "processes (os_at w (ticks s + 2)) p \<noteq> None"
    and a3: "processes (os_at w (ticks s + 3)) p \<noteq> None"
    using alive [of "ticks s + 1"] alive [of "ticks s + 2"] alive [of "ticks s + 3"] by simp_all
  obtain m c d where
    step: "collect_metrics_for_process w p (ppid pr) index s
       = (Inr (), s\<lparr>ticks := ticks s + 3,
                    memory_metrics := memory_metrics s @ [m],
                    cpu_metrics := cpu_metrics s @ [c],
                    disk_metrics := disk_metrics s @ [d]\<rparr>)"
    and m: "sample_of Memory p index (clock w (ticks s)) m"
    and c: "sample_of CPU p index (clock w (ticks s + 1)) c"
    and d: "sample_of Disk p index (clock w (ticks s + 2)) d"
    by (rule collect_metrics_for_process_alive [OF a1 a2 a3])
  let ?s1 = "s\<lparr>ticks := ticks s + 3,
               memory_metrics := memory_metrics s @ [m],
               cpu_metrics := cpu_metrics s @ [c],
               disk_metrics := disk_metrics s @ [d]\<rparr>"
  have "alive_during w (ticks ?s1) (ticks ?s1 + 3 * length ps) ps"
    using alive by (simp add: alive_during_def)
  from Cons.IH [OF this] obtain s' mem cpu dsk where
    rest: "collect_processes w ps index ?s1 = (Inr (), s')"
      "ticks s' = ticks ?s1 + 3 * length ps"
      "memory_metrics s' = memory_metrics ?s1 @ mem"
      "cpu_metrics s' = cpu_metrics ?s1 @ cpu"
      "disk_metrics s' = disk_metrics ?s1 @ dsk"
      "network_metrics s' = network_metrics ?s1"
      "logged s' = logged ?s1"
      "sampled_in_order w (ticks ?s1) index ps mem cpu dsk"
    by blast
  have run: "collect_processes w (p # ps) index s = (Inr (), s')"
    by (simp only: collect_processes.simps pr option.case step prod.case sum.case rest(1))
  have order: "sampled_in_order w (ticks s) index (p # ps) (m # mem) (c # cpu) (d # dsk)"
    using sampled_in_order_Cons [OF m c d] rest(8) by simp
  show ?case
    using run order rest(2-7) by (intro exI [of _ s'] exI [of _ "m # mem"] exI [of _ "c # cpu"] exI [of _ "d # dsk"]) simp
qed


lemma collect_metric_global_returns:
  obtains net where
    "collect_metric_global w index s
       = (Inr (Some net), s\<lparr>ticks := Suc (ticks s), network_metrics := network_metrics s @ [net]\<rparr>)"
    "kind_of net = Network" "collection_id net = index" "timestamp net = clock w (ticks s)"
proof -
  let ?s1 = "s\<lparr>ticks := Suc (ticks s)\<rparr>"
  obtain net where net: "network_collect w (clock w (ticks s)) index ?s1
       = (Inr net, ?s1\<lparr>network_metrics := network_metrics ?s1 @ [net]\<rparr>)"
      "kind_of net = Network" "collection_id net = index" "timestamp net = clock w (ticks s)"
    by (cases "find_previous_global (network_metrics ?s1)")
       (simp_all add: network_collect_def Let_def)
  have "collect_metric_global w index s
       = (Inr (Some net), s\<lparr>ticks := Suc (ticks s), network_metrics := network_metrics s @ [net]\<rparr>)"
    by (simp add: collect_metric_global_def time_time_def handle_psutil_error_def net(1))
  then show ?thesis using that net(2-4) by blast
qed

text \<open>
  C7. If the root exists when \<open>collect_all_metrics\<close> is called and the root and the
  processes it lists as its descendants, \<open>k\<close> in all, exist at every tick of the call,
  the call returns normally and has appended exactly \<open>k\<close> Memory, \<open>k\<close> CPU and \<open>k\<close>
  Disk records and one Network record. The records are in the order of the process
  list, the three records of a process carry consecutive clock readings in the order
  Memory, CPU, Disk, and the Network record carries the reading after all of them: the
  call read the clock \<open>3k + 1\<close> times, once per collector invocation.
\<close>

theorem collect_all_metrics_composition:
  assumes "processes (os_at w (ticks s)) root_pid = Some rp"
      and "alive_during w (ticks s) (ticks s + 3 * length (root_pid # children rp))
             (root_pid # children rp)"
  shows "\<exists>s' mem cpu dsk net.
           collect_all_metrics w root_pid index s = (Inr (), s')
           \<and> memory_metrics s' = memory_metrics s @ mem
           \<and> cpu_metrics s' = cpu_metrics s @ cpu
           \<and> disk_metrics s' = disk_metrics s @ dsk
           \<and> network_metrics s' = network_metrics s @ [net]
           \<and> length mem = Suc (length (children rp))
           \<and> length cpu = Suc (length (children rp))
           \<and> length dsk = Suc (length (children rp))
           \<and> sampled_in_order w (ticks s) index (root_pid # children rp) mem cpu dsk
           \<and> kind_of net = Network \<and> collection_id net = index
           \<and> timestamp net = clock w (ticks s + 3 * Suc (length (children rp)))
           \<and> ticks s' = ticks s + 3 * Suc (length (children rp)) + 1"
proof -
  let ?ps = "root_pid # children rp"
  have list: "get_process_list w root_pid s = Inr ?ps"
    by (simp add: get_process_list_def now_def assms(1))
  from collect_processes_alive [OF assms(2), of index] obtain s1 mem cpu dsk where
    loop: "collect_processes w ?ps index s = (Inr (), s1)"
      "ticks s1 = ticks s + 3 * length ?ps"
      "memory_metrics s1 = memory_metrics s @ mem"
      "cpu_metrics s1 = cpu_metrics s @ cpu"
      "disk_metrics s1 = disk_metrics s @ dsk"
      "network_metrics s1 = network_metrics s"
      "sampled_in_order w (ticks s) index ?ps mem cpu dsk"
    by blast
  obtain net where
    net: "collect_metric_global w index s1
       = (Inr (Some net), s1\<lparr>ticks := Suc (ticks s1), network_metrics := network_metrics s1 @ [net]\<rparr>)"
      "kind_of net = Network" "collection_id net = index" "timestamp net = clock w (ticks s1)"
    by (rule collect_metric_global_returns)
  let ?s' = "s1\<lparr>ticks := Suc (ticks s1), network_metrics := network_metrics s1 @ [net]\<rparr>"
  have run: "collect_all_metrics w root_pid index s = (Inr (), ?s')"
    by (simp only: collect_all_metrics_def list sum.case loop(1) prod.case net(1))
  have lens: "length mem = Suc (length (children rp))" "length cpu = Suc (length (children rp))"
    "length dsk = Suc (length (children rp))"
    using loop(7) by (simp_all add: sampled_in_order_def)
  show ?thesis
    using run loop(2-7) net(2-4) lens
    by (intro exI [of _ ?s'] exI [of _ mem] exI [of _ cpu] exI [of _ dsk] exI [of _ net]) simp
qed

lemma example_collect:
  "collect_all_metrics example_world 1 0 initial_state =
    (Inr (),
     \<lparr>cpu_metrics =
        [CPUMetric 1 0 (Some 1) (Some 0) 5 1 (1 / 2) 0 0 0,
         CPUMetric 4 0 (Some 2) (Some 1) 5 1 (1 / 2) 0 0 0,
         CPUMetric 7 0 (Some 3) (Some 1) 5 1 (1 / 2) 0 0 0],
      memory_metrics =
        [MemoryMetric 0 0 (Some 1) (Some 0) 64,
         MemoryMetric 3 0 (Some 2) (Some 1) 64,
         MemoryMetric 6 0 (Some 3) (Some 1) 64],
      disk_metrics =
        [DiskMetric 2 0 (Some 1) (Some 0) 0 0 0 0,
         DiskMetric 5 0 (Some 2) (Some 1) 0 0 0 0,
         DiskMetric 8 0 (Some 3) (Some 1) 0 0 0 0],
      network_metrics = [NetworkMetric 9 0 0 0 0 0], logged = [], ticks = 10,
      sent = [], slept = [], conn_closed = False\<rparr>)"
  by (simp add: collector_defs example_world_simps example_system_simps example_process_def
        initial_state_def Let_def)

text \<open>The witness: the root 1 with its two children, \<open>3 \<times> 3 + 1\<close> records.\<close>

theorem collect_all_metrics_composition_witness:
  "processes (os_at example_world (ticks initial_state)) 1 = Some (example_process 0 [2, 3] 0)
   \<and> alive_during example_world (ticks initial_state)
        (ticks initial_state + 3 * length (1 # children (example_process 0 [2, 3] 0)))
        (1 # children (example_process 0 [2, 3] 0))
   \<and> (\<exists>s'. collect_all_metrics example_world 1 0 initial_state = (Inr (), s')
          \<and> length (memory_metrics s') = 3 \<and> length (cpu_metrics s') = 3
          \<and> length (disk_metrics s') = 3 \<and> length (network_metrics s') = 1
          \<and> map pid (memory_metrics s') = [Some 1, Some 2, Some 3]
          \<and> ticks s' = 10)"
proof -
  have root: "processes (os_at example_world (ticks initial_state)) 1
                = Some (example_process 0 [2, 3] 0)"
    by (simp add: example_world_simps example_system_simps)
  have alive: "alive_during example_world (ticks initial_state)
        (ticks initial_state + 3 * length (1 # children (example_process 0 [2, 3] 0)))
        (1 # children (example_process 0 [2, 3] 0))"
    by (simp add: alive_during_def example_world_simps example_system_simps example_process_def)
  from collect_all_metrics_composition [OF root alive, of 0] obtain s' mem cpu dsk net where
    run: "collect_all_metrics example_world 1 0 initial_state = (Inr (), s')"
    and lists: "memory_metrics s' = memory_metrics initial_state @ mem"
      "cpu_metrics s' = cpu_metrics initial_state @ cpu"
      "disk_metrics s' = disk_metrics initial_state @ dsk"
      "network_metrics s' = network_metrics initial_state @ [net]"
    and lens: "length mem = Suc (length (children (example_process 0 [2, 3] 0)))"
      "length cpu = Suc (length (children (example_process 0 [2, 3] 0)))"
      "length dsk = Suc (length (children (example_process 0 [2, 3] 0)))"
    and order: "sampled_in_order example_world (ticks initial_state) 0
                  (1 # children (example_process 0 [2, 3] 0)) mem cpu dsk"
    and ticks: "ticks s' = ticks initial_state
                  + 3 * Suc (length (children (example_process 0 [2, 3] 0))) + 1"
    by blast
  have kids: "children (example_process 0 [2, 3] 0) = [2, 3]"
    by (simp add: example_process_def)
  have pids: "map pid mem = [Some 1, Some 2, Some 3]"
  proof (rule nth_equalityI)
    show "length (map pid mem) = length [Some 1, Some 2, Some (3::int)]"
      using lens(1) by (simp add: kids)
  next
    fix i assume "i < length (map pid mem)"
    then have i: "i < 3" using lens(1) by (simp add: kids)
    then have "pid (mem ! i) = Some ([1, 2, 3] ! i)"
      using order by (simp add: sampled_in_order_def sample_of_def kids)
    then show "map pid mem ! i = [Some 1, Some 2, Some 3] ! i"
      using i lens(1) by (auto simp: kids less_Suc_eq numeral_3_eq_3)
  qed
  have result: "length (memory_metrics s') = 3 \<and> length (cpu_metrics s') = 3
          \<and> length (disk_metrics s') = 3 \<and> length (network_metrics s') = 1
          \<and> map pid (memory_metrics s') = [Some 1, Some 2, Some 3]
          \<and> ticks s' = 10"
    using lists lens ticks pids by (simp add: kids initial_state_def)
  show ?thesis
  proof (intro conjI)
    show "\<exists>s'. collect_all_metrics example_world 1 0 initial_state = (Inr (), s')
          \<and> length (memory_metrics s') = 3 \<and> length (cpu_metrics s') = 3
          \<and> length (disk_metrics s') = 3 \<and> length (network_metrics s') = 1
          \<and> map pid (memory_metrics s') = [Some 1, Some 2, Some 3]
          \<and> ticks s' = 10"
      using run result by (intro exI [of _ s']) (rule conjI)
  qed (rule root, rule alive)
qed

subsection \<open>A round with a process that is gone\<close>

text \<open>
  Whether the process is there or not, a per-process collector returns: it reads the
  clock once and leaves the Network sequence alone.
\<close>

lemma collect_metric_returns:
  assumes "collect \<in> {memory_collect, cpu_collect, disk_collect}"
  obtains r s' where
    "collect_metric collect w p pp cid s = (Inr r, s')"
    "ticks s' = Suc (ticks s)" "network_metrics s' = network_metrics s"
proof (cases "processes (os_at w (Suc (ticks s))) p")
  case None
  from collect_metric_absent [OF None, of pp cid] assms
  have "collect_metric collect w p pp cid s
          = (Inr None, s\<lparr>ticks := Suc (ticks s),
                         logged := logged s @ [(WARNING, ''Process no longer exists.'')]\<rparr>)"
    by auto
  then show ?thesis using that by simp
next
  case (Some pr)
  then have alive: "processes (os_at w (Suc (ticks s))) p \<noteq> None" by simp
  from assms consider "collect = memory_collect" | "collect = cpu_collect" | "collect = disk_collect"
    by auto
  then show ?thesis
  proof cases
    case 1
    from memory_collect_metric_alive [OF alive, of pp cid] obtain m where
      "collect_metric memory_collect w p pp cid s
         = (Inr (Some m), s\<lparr>ticks := Suc (ticks s), memory_metrics := memory_metrics s @ [m]\<rparr>)"
      by blast
    then show ?thesis using that 1 by simp
  next
    case 2
    from cpu_collect_metric_alive [OF alive, of pp cid] obtain m where
      "collect_metric cpu_collect w p pp cid s
         = (Inr (Some m), s\<lparr>ticks := Suc (ticks s), cpu_metrics := cpu_metrics s @ [m]\<rparr>)"
      by blast
    then show ?thesis using that 2 by simp
  next
    case 3
    from disk_collect_metric_alive [OF alive, of pp cid] obtain m where
      "collect_metric disk_collect w p pp cid s
         = (Inr (Some m), s\<lparr>ticks := Suc (ticks s), disk_metrics := disk_metrics s @ [m]\<rparr>)"
      by blast
    then show ?thesis using that 3 by simp
  qed
qed

lemma collect_metrics_for_process_returns:
  obtains s' where
    "collect_metrics_for_process w p pp cid s = (Inr (), s')"
    "ticks s' = ticks s + 3" "network_metrics s' = network_metrics s"
proof -
  obtain r1 s1 where
    m: "collect_metric memory_collect w p pp cid s = (Inr r1, s1)"
       "ticks s1 = Suc (ticks s)" "network_metrics s1 = network_metrics s"
    by (rule collect_metric_returns [of memory_collect]) simp
  obtain r2 s2 where
    c: "collect_metric cpu_collect w p pp cid s1 = (Inr r2, s2)"
       "ticks s2 = Suc (ticks s1)" "network_metrics s2 = network_metrics s1"
    by (rule collect_metric_returns [of cpu_collect]) simp
  obtain r3 s3 where
    d: "collect_metric disk_collect w p pp cid s2 = (Inr r3, s3)"
       "ticks s3 = Suc (ticks s2)" "network_metrics s3 = network_metrics s2"
    by (rule collect_metric_returns [of disk_collect]) simp
  have "collect_metrics_for_process w p pp cid s = (Inr (), s3)"
    by (simp only: collect_metrics_for_process_def m(1) c(1) d(1) prod.case sum.case)
  moreover have "ticks s3 = ticks s + 3" using m(2) c(2) d(2) by simp
  moreover have "network_metrics s3 = network_metrics s" using m(3) c(3) d(3) by simp
  ultimately show ?thesis using that by blast
qed

text \<open>
  The loop over the process list ends normally if each process is there when the loop
  reaches it and asks for its parent, whatever happens to it afterwards.
\<close>

lemma collect_processes_returns:
  assumes "\<forall>i < length ps. processes (os_at w (ticks s + 3 * i)) (ps ! i) \<noteq> None"
  shows "\<exists>s'. collect_processes w ps index s = (Inr (), s')
              \<and> ticks s' = ticks s + 3 * length ps
              \<and> network_metrics s' = network_metrics s"
  using assms
proof (induction ps arbitrary: s)
  case Nil
  then show ?case by simp
next
  case (Cons p ps)
  from Cons.prems have "processes (os_at w (ticks s + 3 * 0)) ((p # ps) ! 0) \<noteq> None"
    by blast
  then obtain pr where pr: "processes (now w s) p = Some pr"
    by (auto simp: now_def)
  obtain s1 where
    step: "collect_metrics_for_process w p (ppid pr) index s = (Inr (), s1)"
      "ticks s1 = ticks s + 3" "network_metrics s1 = network_metrics s"
    by (rule collect_metrics_for_process_returns)
  have "\<forall>i < length ps. processes (os_at w (ticks s1 + 3 * i)) (ps ! i) \<noteq> None"
  proof (intro allI impI)
    fix i assume "i < length ps"
    then have "processes (os_at w (ticks s + 3 * Suc i)) ((p # ps) ! Suc i) \<noteq> None"
      using Cons.prems by (metis Suc_less_eq length_Cons)
    then show "processes (os_at w (ticks s1 + 3 * i)) (ps ! i) \<noteq> None"
      by (simp add: step(2) algebra_simps)
  qed
  from Cons.IH [OF this] obtain s' where
    rest: "collect_processes w ps index s1 = (Inr (), s')"
      "ticks s' = ticks s1 + 3 * length ps" "network_metrics s' = network_metrics s1"
    by blast
  have "collect_processes w (p # ps) index s = (Inr (), s')"
    by (simp only: collect_processes.simps pr option.case step(1) prod.case sum.case rest(1))
  then show ?case using rest(2,3) step(2,3) by simp
qed

lemma collect_all_metrics_returns:
  assumes "processes (os_at w (ticks s)) root_pid = Some rp"
      and "\<forall>i < length (root_pid # children rp).
             processes (os_at w (ticks s + 3 * i)) ((root_pid # children rp) ! i) \<noteq> None"
  shows "\<exists>s'. collect_all_metrics w root_pid index s = (Inr (), s')
              \<and> ticks s' = ticks s + 3 * length (root_pid # children rp) + 1
              \<and> length (network_metrics s') = Suc (length (network_metrics s))"
proof -
  let ?ps = "root_pid # children rp"
  have list: "get_process_list w root_pid s = Inr ?ps"
    by (simp add: get_process_list_def now_def assms(1))
  from collect_processes_returns [OF assms(2), of index] obtain s1 where
    loop: "collect_processes w ?ps index s = (Inr (), s1)"
      "ticks s1 = ticks s + 3 * length ?ps" "network_metrics s1 = network_metrics s"
    by blast
  obtain net where
    net: "collect_metric_global w index s1
       = (Inr (Some net), s1\<lparr>ticks := Suc (ticks s1), network_metrics := network_metrics s1 @ [net]\<rparr>)"
    by (rule collect_metric_global_returns)
  let ?s' = "s1\<lparr>ticks := Suc (ticks s1), network_metrics := network_metrics s1 @ [net]\<rparr>"
  have "collect_all_metrics w root_pid index s = (Inr (), ?s')"
    by (simp only: collect_all_metrics_def list sum.case loop(1) prod.case net(1))
  then show ?thesis using loop(2,3) by (intro exI [of _ ?s']) simp
qed

lemma fading_world_simps:
  "clock fading_world t = real t"
  "t \<le> 3 \<Longrightarrow> os_at fading_world t = example_system"
  "3 < t \<Longrightarrow> processes (os_at fading_world t) 1 = Some (example_process 0 [3] 0)"
  "3 < t \<Longrightarrow> processes (os_at fading_world t) 2 = None"
  "3 < t \<Longrightarrow> processes (os_at fading_world t) 3 = Some (example_process 1 [] 0)"
  "bytes_recv (os_at fading_world t) = 0"
  "bytes_sent (os_at fading_world t) = 0"
  by (simp_all add: fading_world_def example_system_def)

text \<open>
  The round on \<open>fading_world\<close>: child 2 is listed and is gone when it is sampled; the
  round logs three warnings, samples the root and child 3, and takes the Network sample.
\<close>

lemma fading_collect:
  "collect_all_metrics fading_world 1 0 initial_state =
    (Inr (),
     \<lparr>cpu_metrics =
        [CPUMetric 1 0 (Some 1) (Some 0) 5 1 (1 / 2) 0 0 0,
         CPUMetric 7 0 (Some 3) (Some 1) 5 1 (1 / 2) 0 0 0],
      memory_metrics =
        [MemoryMetric 0 0 (Some 1) (Some 0) 64,
         MemoryMetric 6 0 (Some 3) (Some 1) 64],
      disk_metrics =
        [DiskMetric 2 0 (Some 1) (Some 0) 0 0 0 0,
         DiskMetric 8 0 (Some 3) (Some 1) 0 0 0 0],
      network_metrics = [NetworkMetric 9 0 0 0 0 0],
      logged = [(WARNING, ''Process no longer exists.''),
                (WARNING, ''Process no longer exists.''),
                (WARNING, ''Process no longer exists.'')],
      ticks = 10, sent = [], slept = [], conn_closed = False\<rparr>)"
  by (simp add: collector_defs fading_world_simps example_system_simps example_process_def
        initial_state_def Let_def)

text \<open>
  What the collectors do not cover: a listed process that is already gone when the loop
  asks for its parent. \<open>proc.ppid()\<close> raises, and the exception leaves the loop.
\<close>

lemma collect_processes_raises_at_ppid:
  "processes (os_at w (ticks s)) p = None \<Longrightarrow>
   collect_processes w (p # ps) index s = (Inl (NoSuchProcess p), s)"
  by (simp add: now_def)

text \<open>
  C8. Each of the three per-process collectors, asked for a pid whose process does not
  exist when the collector looks (one tick after the call, the clock having been read),
  returns \<open>None\<close> without raising, logs one warning and leaves the three sequences as
  they were. A process gone for the three samples of a round costs three warnings, and
  the sampling of that process returns normally. The round is not aborted: in the loop
  over the process list, a process that was there when the loop asked for its parent
  and is gone for its three samples leaves the loop to go on with the rest of the list,
  three ticks and three warnings later; and \<open>collect_all_metrics\<close> returns normally
  and appends its Network record whenever each listed process is there when the loop
  reaches it, whatever is gone by the time it is sampled.
\<close>

theorem absent_process_is_tolerated:
  assumes "processes (os_at w (Suc (ticks s))) p = None"
  shows "collect_metric memory_collect w p pp cid s
           = (Inr None, s\<lparr>ticks := Suc (ticks s),
                          logged := logged s @ [(WARNING, ''Process no longer exists.'')]\<rparr>)
       \<and> collect_metric cpu_collect w p pp cid s
           = (Inr None, s\<lparr>ticks := Suc (ticks s),
                          logged := logged s @ [(WARNING, ''Process no longer exists.'')]\<rparr>)
       \<and> collect_metric disk_collect w p pp cid s
           = (Inr None, s\<lparr>ticks := Suc (ticks s),
                          logged := logged s @ [(WARNING, ''Process no longer exists.'')]\<rparr>)
       \<and> (\<forall>collect \<in> {memory_collect, cpu_collect, disk_collect}.
             memory_metrics (snd (collect_metric collect w p pp cid s)) = memory_metrics s
           \<and> cpu_metrics (snd (collect_metric collect w p pp cid s)) = cpu_metrics s
           \<and> disk_metrics (snd (collect_metric collect w p pp cid s)) = disk_metrics s)
       \<and> (processes (os_at w (Suc (Suc (ticks s)))) p = None
            \<and> processes (os_at w (Suc (Suc (Suc (ticks s))))) p = None \<longrightarrow>
          collect_metrics_for_process w p pp cid s
            = (Inr (), s\<lparr>ticks := Suc (Suc (Suc (ticks s))),
                         logged := logged s @ [(WARNING, ''Process no longer exists.''),
                                               (WARNING, ''Process no longer exists.''),
                                               (WARNING, ''Process no longer exists.'')]\<rparr>))
       \<and> (processes (os_at w (ticks s)) p = Some proc
            \<and> processes (os_at w (Suc (Suc (ticks s)))) p = None
            \<and> processes (os_at w (Suc (Suc (Suc (ticks s))))) p = None \<longrightarrow>
          collect_processes w (p # ps) cid s
            = collect_processes w ps cid
                (s\<lparr>ticks := Suc (Suc (Suc (ticks s))),
                   logged := logged s @ [(WARNING, ''Process no longer exists.''),
                                         (WARNING, ''Process no longer exists.''),
                                         (WARNING, ''Process no longer exists.'')]\<rparr>))
       \<and> (processes (os_at w (ticks st)) root_pid = Some rp
            \<and> (\<forall>i < length (root_pid # children rp).
                  processes (os_at w (ticks st + 3 * i)) ((root_pid # children rp) ! i) \<noteq> None) \<longrightarrow>
          (\<exists>s'. collect_all_metrics w root_pid index st = (Inr (), s')
               \<and> ticks s' = ticks st + 3 * length (root_pid # children rp) + 1
               \<and> length (network_metrics s') = Suc (length (network_metrics st))))"
proof (intro conjI impI ballI)
  show "collect_metric memory_collect w p pp cid s
           = (Inr None, s\<lparr>ticks := Suc (ticks s),
                          logged := logged s @ [(WARNING, ''Process no longer exists.'')]\<rparr>)"
    by (rule collect_metric_absent(1) [OF assms])
  show "collect_metric cpu_collect w p pp cid s
           = (Inr None, s\<lparr>ticks := Suc (ticks s),
                          logged := logged s @ [(WARNING, ''Process no longer exists.'')]\<rparr>)"
    by (rule collect_metric_absent(2) [OF assms])
  show "collect_metric disk_collect w p pp cid s
           = (Inr None, s\<lparr>ticks := Suc (ticks s),
                          logged := logged s @ [(WARNING, ''Process no longer exists.'')]\<rparr>)"
    by (rule collect_metric_absent(3) [OF assms])
next
  fix collect assume "collect \<in> {memory_collect, cpu_collect, disk_collect}"
  then have *: "collect_metric collect w p pp cid s
           = (Inr None, s\<lparr>ticks := Suc (ticks s),
                          logged := logged s @ [(WARNING, ''Process no longer exists.'')]\<rparr>)"
    using collect_metric_absent [OF assms] by auto
  show "memory_metrics (snd (collect_metric collect w p pp cid s)) = memory_metrics s"
    and "cpu_metrics (snd (collect_metric collect w p pp cid s)) = cpu_metrics s"
    and "disk_metrics (snd (collect_metric collect w p pp cid s)) = disk_metrics s"
    by (simp_all add: *)
next
  assume later: "processes (os_at w (Suc (Suc (ticks s)))) p = None
            \<and> processes (os_at w (Suc (Suc (Suc (ticks s))))) p = None"
  then show "collect_metrics_for_process w p pp cid s
            = (Inr (), s\<lparr>ticks := Suc (Suc (Suc (ticks s))),
                         logged := logged s @ [(WARNING, ''Process no longer exists.''),
                                               (WARNING, ''Process no longer exists.''),
                                               (WARNING, ''Process no longer exists.'')]\<rparr>)"
    using collect_metrics_for_process_absent [OF assms] by blast
next
  assume listed: "processes (os_at w (ticks s)) p = Some proc
            \<and> processes (os_at w (Suc (Suc (ticks s)))) p = None
            \<and> processes (os_at w (Suc (Suc (Suc (ticks s))))) p = None"
  then have pr: "processes (now w s) p = Some proc" by (simp add: now_def)
  have step: "collect_metrics_for_process w p (ppid proc) cid s
            = (Inr (), s\<lparr>ticks := Suc (Suc (Suc (ticks s))),
                         logged := logged s @ [(WARNING, ''Process no longer exists.''),
                                               (WARNING, ''Process no longer exists.''),
                                               (WARNING, ''Process no longer exists.'')]\<rparr>)"
    using collect_metrics_for_process_absent [OF assms] listed by blast
  show "collect_processes w (p # ps) cid s
            = collect_processes w ps cid
                (s\<lparr>ticks := Suc (Suc (Suc (ticks s))),
                   logged := logged s @ [(WARNING, ''Process no longer exists.''),
                                         (WARNING, ''Process no longer exists.''),
                                         (WARNING, ''Process no longer exists.'')]\<rparr>)"
    by (simp only: collect_processes.simps pr option.case step prod.case sum.case)
next
  assume round: "processes (os_at w (ticks st)) root_pid = Some rp
            \<and> (\<forall>i < length (root_pid # children rp).
                  processes (os_at w (ticks st + 3 * i)) ((root_pid # children rp) ! i) \<noteq> None)"
  then show "\<exists>s'. collect_all_metrics w root_pid index st = (Inr (), s')
               \<and> ticks s' = ticks st + 3 * length (root_pid # children rp) + 1
               \<and> length (network_metrics s') = Suc (length (network_metrics st))"
    using collect_all_metrics_returns [of w st root_pid rp index] by blast
qed

text \<open>
  The witness: pid 99, which the example system does not have; and child 2 of
  \<open>fading_world\<close>, there at tick 3 and gone from tick 4 on, in the loop and in the
  round started at tick 0.
\<close>

theorem absent_process_is_tolerated_witness:
  "processes (os_at example_world (Suc (ticks initial_state))) 99 = None
   \<and> collect_metric memory_collect example_world 99 1 0 initial_state
       = (Inr None, initial_state\<lparr>ticks := 1, logged := [(WARNING, ''Process no longer exists.'')]\<rparr>)
   \<and> collect_metric cpu_collect example_world 99 1 0 initial_state
       = (Inr None, initial_state\<lparr>ticks := 1, logged := [(WARNING, ''Process no longer exists.'')]\<rparr>)
   \<and> collect_metric disk_collect example_world 99 1 0 initial_state
       = (Inr None, initial_state\<lparr>ticks := 1, logged := [(WARNING, ''Process no longer exists.'')]\<rparr>)
   \<and> collect_metrics_for_process example_world 99 1 0 initial_state
       = (Inr (), initial_state\<lparr>ticks := 3,
                    logged := [(WARNING, ''Process no longer exists.''),
                               (WARNING, ''Process no longer exists.''),
                               (WARNING, ''Process no longer exists.'')]\<rparr>)
   \<and> processes (os_at fading_world (ticks (initial_state\<lparr>ticks := 3\<rparr>))) 2
       = Some (example_process 1 [] 0)
   \<and> processes (os_at fading_world (Suc (ticks (initial_state\<lparr>ticks := 3\<rparr>)))) 2 = None
   \<and> collect_processes fading_world [2, 3] 0 (initial_state\<lparr>ticks := 3\<rparr>)
       = collect_processes fading_world [3] 0
           (initial_state\<lparr>ticks := 6,
              logged := [(WARNING, ''Process no longer exists.''),
                         (WARNING, ''Process no longer exists.''),
                         (WARNING, ''Process no longer exists.'')]\<rparr>)
   \<and> processes (os_at fading_world (ticks initial_state)) 1 = Some (example_process 0 [2, 3] 0)
   \<and> (\<exists>s'. collect_all_metrics fading_world 1 0 initial_state = (Inr (), s')
          \<and> ticks s' = 10 \<and> length (network_metrics s') = 1
          \<and> map pid (memory_metrics s') = [Some 1, Some 3]
          \<and> logged s' = [(WARNING, ''Process no longer exists.''),
                         (WARNING, ''Process no longer exists.''),
                         (WARNING, ''Process no longer exists.'')])"
proof -
  let ?warn = "(WARNING, ''Process no longer exists.'')"
  let ?s3 = "initial_state\<lparr>ticks := 3\<rparr>"
  have gone99: "processes (os_at example_world (Suc (ticks initial_state))) 99 = None"
    by (simp add: example_world_simps example_system_simps)
  note first = absent_process_is_tolerated
    [where w = example_world and s = initial_state and p = 99 and pp = 1 and cid = 0, OF gone99]
  have t3: "ticks ?s3 = 3" by (simp add: initial_state_def)
  have there2: "processes (os_at fading_world (ticks ?s3)) 2 = Some (example_process 1 [] 0)"
    by (simp add: t3 fading_world_simps example_system_simps)
  have gone2: "processes (os_at fading_world (Suc (ticks ?s3))) 2 = None"
    "processes (os_at fading_world (Suc (Suc (ticks ?s3)))) 2 = None"
    "processes (os_at fading_world (Suc (Suc (Suc (ticks ?s3))))) 2 = None"
    by (simp_all add: t3 fading_world_simps)
  have root: "processes (os_at fading_world (ticks initial_state)) 1
                = Some (example_process 0 [2, 3] 0)"
    by (simp add: initial_state_def fading_world_simps example_system_simps)
  have kids: "children (example_process 0 [2, 3] 0) = [2, 3]"
    by (simp add: example_process_def)
  have listed: "\<forall>i < length (1 # children (example_process 0 [2, 3] 0)).
      processes (os_at fading_world (ticks initial_state + 3 * i))
        ((1 # children (example_process 0 [2, 3] 0)) ! i) \<noteq> None"
    by (auto simp: kids initial_state_def less_Suc_eq fading_world_simps example_system_simps)
  note second = absent_process_is_tolerated
    [where w = fading_world and s = ?s3 and p = 2 and pp = 1 and cid = 0
       and proc = "example_process 1 [] 0" and ps = "[3]"
       and st = initial_state and root_pid = 1 and rp = "example_process 0 [2, 3] 0"
       and index = 0, OF gone2(1)]
  have a: "collect_metric memory_collect example_world 99 1 0 initial_state
       = (Inr None, initial_state\<lparr>ticks := 1, logged := [?warn]\<rparr>)"
    and b: "collect_metric cpu_collect example_world 99 1 0 initial_state
       = (Inr None, initial_state\<lparr>ticks := 1, logged := [?warn]\<rparr>)"
    and c: "collect_metric disk_collect example_world 99 1 0 initial_state
       = (Inr None, initial_state\<lparr>ticks := 1, logged := [?warn]\<rparr>)"
    and d: "collect_metrics_for_process example_world 99 1 0 initial_state
       = (Inr (), initial_state\<lparr>ticks := 3, logged := [?warn, ?warn, ?warn]\<rparr>)"
    using first
    by (simp_all add: example_world_simps example_system_simps initial_state_def numeral_3_eq_3)
  have e: "collect_processes fading_world [2, 3] 0 ?s3
       = collect_processes fading_world [3] 0
           (initial_state\<lparr>ticks := 6, logged := [?warn, ?warn, ?warn]\<rparr>)"
  proof -
    from second there2 gone2 have
      "collect_processes fading_world [2, 3] 0 ?s3
        = collect_processes fading_world [3] 0
            (?s3\<lparr>ticks := Suc (Suc (Suc (ticks ?s3))),
                 logged := logged ?s3 @ [?warn, ?warn, ?warn]\<rparr>)"
      by blast
    then show ?thesis by (simp add: initial_state_def)
  qed
  have f: "\<exists>s'. collect_all_metrics fading_world 1 0 initial_state = (Inr (), s')
          \<and> ticks s' = 10 \<and> length (network_metrics s') = 1
          \<and> map pid (memory_metrics s') = [Some 1, Some 3]
          \<and> logged s' = [?warn, ?warn, ?warn]"
  proof -
    from second root listed obtain s' where
      s': "collect_all_metrics fading_world 1 0 initial_state = (Inr (), s')"
        "ticks s' = ticks initial_state + 3 * length (1 # children (example_process 0 [2, 3] 0)) + 1"
        "length (network_metrics s') = Suc (length (network_metrics initial_state))"
      by blast
    have "ticks s' = 10" "length (network_metrics s') = 1"
      using s'(2,3) by (simp_all add: kids initial_state_def)
    moreover have "map pid (memory_metrics s') = [Some 1, Some 3]"
      "logged s' = [?warn, ?warn, ?warn]"
      using s'(1) by (auto simp: fading_collect)
    ultimately show ?thesis using s'(1) by (intro exI [of _ s']) simp
  qed
  show ?thesis
    by (intro conjI) (rule gone99 a b c d there2 gone2(1) e root f)+
qed

section \<open>Properties of the Profiler\<close>

lemmas profiler_defs =
  collect_and_send_metrics_def collect_metrics_def send_metrics_def
  METRIC_COLLECTIONS_FIELDS_def getattr_metrics_def send_metric_to_prometheus_def
  prepare_profiling_data_def str_opt_int_def str_int_def str_nat.simps digit_def
  check_stop_signal_def sleep_until_next_interval_def profiling_round_def start_profiling_def

subsection \<open>What a round exports\<close>

text \<open>
  Round 0 on the example: the aggregation appends three records to each per-process
  sequence, and the exporter is called for the fields of the records at position 0
  only.
\<close>

lemma example_round:
  "collect_and_send_metrics example_world (\<lambda>c. False) (prepare_profiling_data example_job) 1 0
     initial_state =
    (Inr (),
  \<lparr>cpu_metrics =
     [CPUMetric 1 0 (Some 1) (Some 0) 5 1 (1 / 2) 0 0 0,
      CPUMetric 4 0 (Some 2) (Some 1) 5 1 (1 / 2) 0 0 0,
      CPUMetric 7 0 (Some 3) (Some 1) 5 1 (1 / 2) 0 0 0],
     memory_metrics =
       [MemoryMetric 0 0 (Some 1) (Some 0) 64,
        MemoryMetric 3 0 (Some 2) (Some 1) 64,
        MemoryMetric 6 0 (Some 3) (Some 1) 64],
     disk_metrics =
       [DiskMetric 2 0 (Some 1) (Some 0) 0 0 0 0,
        DiskMetric 5 0 (Some 2) (Some 1) 0 0 0 0,
        DiskMetric 8 0 (Some 3) (Some 1) 0 0 0 0],
     network_metrics = [NetworkMetric 9 0 0 0 0 0], logged = [], ticks = 10,
     sent =
       [Export ''cpu_usage'' 5 ''gauge''
   [(''job_id'', ''J''), (''executor_id'', ''E''), (''call_id'', ''C''),
    (''pid'', ''1''), (''parent_pid'', ''0'')],
  Export ''user_time'' 1 ''gauge''
   [(''job_id'', ''J''), (''executor_id'', ''E''), (''call_id'', ''C''),
    (''pid'', ''1''), (''parent_pid'', ''0'')],
  Export ''system_time'' (1 / 2) ''gauge''
   [(''job_id'', ''J''), (''executor_id'', ''E''), (''call_id'', ''C''),
    (''pid'', ''1''), (''parent_pid'', ''0'')],
  Export ''children_user_time'' 0 ''gauge''
   [(''job_id'', ''J''), (''executor_id'', ''E''), (''call_id'', ''C''),
    (''pid'', ''1''), (''parent_pid'', ''0'')],
  Export ''children_system_time'' 0 ''gauge''
   [(''job_id'', ''J''), (''executor_id'', ''E''), (''call_id'', ''C''),
    (''pid'', ''1''), (''parent_pid'', ''0'')],
  Export ''iowait_time'' 0 ''gauge''
   [(''job_id'', ''J''), (''executor_id'', ''E''), (''call_id'', ''C''),
    (''pid'', ''1''), (''parent_pid'', ''0'')],
  Export ''memory_usage'' 64 ''gauge''
   [(''job_id'', ''J''), (''executor_id'', ''E''), (''call_id'', ''C''),
    (''pid'', ''1''), (''parent_pid'', ''0'')],
  Export ''disk_read_mb'' 0 ''gauge''
   [(''job_id'', ''J''), (''executor_id'', ''E''), (''call_id'', ''C''),
    (''pid'', ''1''), (''parent_pid'', ''0'')],
  Export ''disk_write_mb'' 0 ''gauge''
   [(''job_id'', ''J''), (''executor_id'', ''E''), (''call_id'', ''C''),
    (''pid'', ''1''), (''parent_pid'', ''0'')],
  Export ''disk_read_rate'' 0 ''gauge''
   [(''job_id'', ''J''), (''executor_id'', ''E''), (''call_id'', ''C''),
    (''pid'', ''1''), (''parent_pid'', ''0'')],
  Export ''disk_write_rate'' 0 ''gauge''
   [(''job_id'', ''J''), (''executor_id'', ''E''), (''call_id'', ''C''),
    (''pid'', ''1''), (''parent_pid'', ''0'')],
  Export ''net_read_mb'' 0 ''gauge''
   [(''job_id'', ''J''), (''executor_id'', ''E''), (''call_id'', ''C'')],
  Export ''net_write_mb'' 0 ''gauge''
   [(''job_id'', ''J''), (''executor_id'', ''E''), (''call_id'', ''C'')],
  Export ''net_read_rate'' 0 ''gauge''
   [(''job_id'', ''J''), (''executor_id'', ''E''), (''call_id'', ''C'')],
  Export ''net_write_rate'' 0 ''gauge''
   [(''job_id'', ''J''), (''executor_id'', ''E''), (''call_id'', ''C'')]],
   slept = [], conn_closed = False\<rparr>)"
  by (simp add: profiler_defs example_collect [simplified] example_job_def Let_def)

text \<open>
  C1. The claim asks that every record a round's aggregation produces is exported in
  that round. In round 0 on a root with two children the round produces Memory, CPU and
  Disk records for the pids 1, 2 and 3, and every export of a process-scoped field has
  the label \<open>pid = 1\<close>: \<open>_send_metrics\<close> sends the one record at position \<open>index\<close>
  of each sequence, so the records of the pids 2 and 3 are not exported in the round.
\<close>

theorem round_exports_record_at_index_only:
  "map pid (memory_metrics (snd (collect_and_send_metrics example_world (\<lambda>c. False)
        (prepare_profiling_data example_job) 1 0 initial_state))) = [Some 1, Some 2, Some 3]
   \<and> map pid (cpu_metrics (snd (collect_and_send_metrics example_world (\<lambda>c. False)
        (prepare_profiling_data example_job) 1 0 initial_state))) = [Some 1, Some 2, Some 3]
   \<and> map pid (disk_metrics (snd (collect_and_send_metrics example_world (\<lambda>c. False)
        (prepare_profiling_data example_job) 1 0 initial_state))) = [Some 1, Some 2, Some 3]
   \<and> map (\<lambda>e. (export_name e, map_of (export_labels e) ''pid''))
        (sent (snd (collect_and_send_metrics example_world (\<lambda>c. False)
           (prepare_profiling_data example_job) 1 0 initial_state)))
     = [(''cpu_usage'', Some ''1''), (''user_time'', Some ''1''),
        (''system_time'', Some ''1''), (''children_user_time'', Some ''1''),
        (''children_system_time'', Some ''1''), (''iowait_time'', Some ''1''),
        (''memory_usage'', Some ''1''), (''disk_read_mb'', Some ''1''),
        (''disk_write_mb'', Some ''1''), (''disk_read_rate'', Some ''1''),
        (''disk_write_rate'', Some ''1''), (''net_read_mb'', None),
        (''net_write_mb'', None), (''net_read_rate'', None),
        (''net_write_rate'', None)]"
  by (simp add: example_round)

subsection \<open>The root process vanishes\<close>

lemma vanishing_world_simps:
  "clock vanishing_world t = real t"
  "os_at vanishing_world 0 = example_system"
  "t \<noteq> 0 \<Longrightarrow> processes (os_at vanishing_world t) p = None"
  "conn_at vanishing_world t = (if t < 3 then NoData else Data ''stop'')"
  "jitter vanishing_world t = 0"
  by (simp_all add: vanishing_world_def)

text \<open>
  C2. The claim asks that the loop stops in the round whose collection finds the root
  process gone. The root exists when \<open>start_profiling\<close> initialises and is gone when
  round 0 collects: \<open>_collect_metrics\<close> catches \<open>NoSuchProcess\<close> itself and returns,
  the handler of the loop that would stop it is never reached, and the loop goes on to
  round 1, which logs the same warning again and ends only because a stop token has
  arrived.
\<close>

theorem loop_continues_after_root_vanished:
  "start_profiling 2 vanishing_world 1 (\<lambda>c. False) example_job 10 initial_state
     = Some (Inr (),
         \<lparr>cpu_metrics = [], memory_metrics = [], disk_metrics = [], network_metrics = [],
          logged =
            [(DEBUG, ''Profiler timeout set''),
             (WARNING, ''Process 1 does not exist. Skipping metric collection.''),
             (WARNING, ''Process 1 does not exist. Skipping metric collection.''),
             (DEBUG, ''Received stop signal, completing current data collection.'')],
          ticks = 3, sent = [], slept = [9], conn_closed = True\<rparr>)"
  by (simp add: profiler_defs collector_defs vanishing_world_simps example_system_simps
        initial_state_def numeral_2_eq_2 Let_def)

text \<open>
  Without a stop token the loop never ends once the root is gone: no amount of fuel
  is enough.
\<close>

lemma ticks_send_metric_to_prometheus [simp]:
  "ticks (send_metric_to_prometheus prometheus key v t labels_dict s) = ticks s"
  by (simp add: send_metric_to_prometheus_def logger_def Let_def)

lemma ticks_send_metrics_to_prometheus:
  "ticks (snd (send_metrics_to_prometheus prometheus m metric_type keys profiling_data s)) = ticks s"
  by (induction keys arbitrary: s) (auto simp: Let_def split: option.splits)

lemma ticks_send_metrics_items:
  "ticks (send_metrics_items prometheus profiling_data index items s) = ticks s"
proof (induction items arbitrary: s)
  case Nil
  then show ?case by simp
next
  case (Cons item items)
  obtain metric_type keys where item: "item = (metric_type, keys)" by (cases item)
  show ?case
    using ticks_send_metrics_to_prometheus
            [of prometheus "getattr_metrics s metric_type ! index" metric_type keys profiling_data s]
    by (auto simp: item Cons.IH Let_def logger_def split: prod.splits sum.splits)
qed

lemma profiling_round_without_root:
  assumes "processes (os_at w (Suc (ticks s))) root_pid = None"
      and "conn_at w (Suc (ticks s)) = NoData"
  shows "\<exists>s'. profiling_round w prometheus profiling_data root_pid t index s = (Inr False, s')
              \<and> ticks s' = Suc (Suc (ticks s))"
  using assms
  by (simp add: profiling_round_def time_time_def collect_and_send_metrics_def collect_metrics_def
        collect_all_metrics_def get_process_list_def now_def logger_def send_metrics_def
        ticks_send_metrics_items check_stop_signal_def sleep_until_next_interval_def Let_def)

lemma profiling_loop_never_ends_without_root:
  assumes "\<forall>t > ticks s. processes (os_at w t) root_pid = None"
      and "\<forall>t. conn_at w t = NoData"
  shows "profiling_loop fuel w prometheus profiling_data root_pid t index s = None"
  using assms
proof (induction fuel arbitrary: s index)
  case 0
  then show ?case by simp
next
  case (Suc fuel)
  from Suc.prems obtain s' where
    round: "profiling_round w prometheus profiling_data root_pid t index s = (Inr False, s')"
    and ticks: "ticks s' = Suc (Suc (ticks s))"
    using profiling_round_without_root [of w s root_pid prometheus profiling_data t index]
    by auto
  have "\<forall>u > ticks s'. processes (os_at w u) root_pid = None"
    using Suc.prems(1) ticks by simp
  then have "profiling_loop fuel w prometheus profiling_data root_pid t (Suc index) s' = None"
    using Suc.IH Suc.prems(2) by blast
  then show ?case by (simp add: round)
qed

section \<open>Properties of the supervision context\<close>

lemmas context_defs =
  profiling_context_def release_def send_stop_signal_def handle_jobrunner_signal_def
  finalize_process_def finalize_try_def terminate_and_join_def close_connections_def call_def

text \<open>
  The wait is bounded and the termination forced: with no call raising and the monitor
  still alive after \<open>join(timeout=5)\<close>, \<open>_finalize_process\<close> terminates it and
  joins it without a timeout.
\<close>

lemma finalize_forced_termination:
  assumes "\<forall>n. \<not> raises h n" and "answer h (Suc (length tr))"
  shows "finalize_process h tr =
           (Returned, tr @ [Join (Some 5), Is_alive,
                            Log WARNING ''Profiling process is still alive, terminating...'',
                            Terminate, Join None])"
  using assms by (simp add: finalize_process_def finalize_try_def terminate_and_join_def call_def)

text \<open>
  A failure of the first two steps does not keep the third from starting, and the
  connections are closed whenever the third returns.
\<close>

lemma finalize_process_joins:
  "finalize_process h t = (r, t3) \<Longrightarrow> Join (Some 5) \<in> set t3"
  by (auto simp: finalize_process_def finalize_try_def terminate_and_join_def call_def Let_def
           split: prod.splits outcome.splits if_splits)

lemma close_connections_keeps:
  "x \<in> set t3 \<Longrightarrow> x \<in> set (snd (close_connections h t3))"
  by (auto simp: close_connections_def call_def split: prod.splits outcome.splits)

lemma close_connections_closes:
  "Close Parent_conn \<in> set (snd (close_connections h t3)) \<and> fst (close_connections h t3) = Returned"
  by (auto simp: close_connections_def call_def split: prod.splits outcome.splits)

lemma release_joins: "Join (Some 5) \<in> set (snd (release h tr))"
  by (auto simp: release_def Let_def split: prod.splits outcome.splits
           dest: finalize_process_joins intro: close_connections_keeps)

lemma release_closes_when_it_returns:
  "fst (release h tr) = Returned \<Longrightarrow> Close Parent_conn \<in> set (snd (release h tr))"
  using close_connections_closes
  by (auto simp: release_def Let_def split: prod.splits outcome.splits)

text \<open>
  C9. The claim asks that on every exit all four release steps run, a failure in one
  not preventing the later ones. Where \<open>join(timeout=5)\<close> raises and \<open>is_alive()\<close>
  raises again in the handler of \<open>_finalize_process\<close>, the exception leaves the
  \<open>finally\<close> block: the trace ends with the handler's \<open>is_alive\<close>, and no
  connection is closed.
\<close>

theorem release_skips_close_when_handler_raises:
  "profiling_context foreign_host Returned =
     (Raised, [Start_process, Send Parent_conn ''stop'', Poll Jobrunner_conn, Join (Some 5),
               Log ERROR ''Error finalizing profiling process'', Is_alive])
   \<and> Close Parent_conn \<notin> set (snd (profiling_context foreign_host Returned))
   \<and> Close Child_conn \<notin> set (snd (profiling_context foreign_host Returned))"
  by (simp add: context_defs foreign_host_def)

end
